theory Spec2Isabelle
  imports Complex_Main "HOL-Library.AList"
begin

section \<open>JavaScript values\<close>

text \<open>
  A JavaScript number is a double. It is represented by its exact rational value, with
  the two infinities and NaN beside it; \<open>-0\<close> is identified with \<open>0\<close>, which is how
  the keys of a \<open>Map\<close> are compared (SameValueZero, under which NaN equals NaN too).
\<close>

datatype number = Fin rat | PosInfinity | NegInfinity | NaN

text \<open>
  The values \<open>JSON5.parse\<close> produces, and \<open>undefined\<close>, which reading a missing
  property gives. An object is the list of its own properties in enumeration order
  (the order of \<open>Object.keys\<close>); the numbers inside a config are never inspected.
\<close>

datatype jsvalue =
    JUndefined
  | JNull
  | JBool bool
  | JNum number
  | JStr string
  | JArr "jsvalue list"
  | JObj "(string \<times> jsvalue) list"

text \<open>
  Modelled from the spec: the class \<open>ZWaveError\<close> and the enumeration \<open>ZWaveErrorCodes\<close>
  are declared in \<open>../error/ZWaveError\<close>, which is not among the sources. A \<open>ZWaveError\<close>
  carries a message and a code. This module uses the code \<open>Config_Invalid\<close> only, for
  both load failures the specification names (the missing resource and the malformed
  config); \<open>Other_Code\<close> stands for every other member of the enumeration.
  An exception is a \<open>ZWaveError\<close>, or any other error (a \<open>TypeError\<close>, a \<open>SyntaxError\<close> of
  the parser, an I/O error), named by its kind.
\<close>

datatype ZWaveErrorCodes = Config_Invalid | Other_Code nat

datatype exn = ZWaveError string ZWaveErrorCodes | OtherError string

text \<open>The type guards of \<open>alcalzone-shared/typeguards\<close>: arrays and \<open>null\<close> are not objects.\<close>

fun isObject :: "jsvalue \<Rightarrow> bool" where
  "isObject (JObj kvs) = True"
| "isObject v = False"

fun isArray :: "jsvalue \<Rightarrow> bool" where
  "isArray (JArr xs) = True"
| "isArray v = False"

text \<open>
  \<open>entries\<close> of \<open>alcalzone-shared/objects\<close>: the key/value pairs of an object. The module
  calls it only on a value that passed \<open>isObject\<close>.
\<close>

fun entries :: "jsvalue \<Rightarrow> (string \<times> jsvalue) list" where
  "entries (JObj kvs) = kvs"
| "entries v = []"

text \<open>The elements of an array, in order; the module maps over a value that passed \<open>isArray\<close>.\<close>

fun elements :: "jsvalue \<Rightarrow> jsvalue list" where
  "elements (JArr xs) = xs"
| "elements v = []"

text \<open>
  The member access \<open>definition.name\<close>: a \<open>TypeError\<close> on \<open>null\<close> and \<open>undefined\<close>,
  the property's value on an object, and \<open>undefined\<close> when the property is missing.
  The module reads the properties \<open>name\<close>, \<open>variables\<close>, \<open>events\<close>, \<open>states\<close>, \<open>idle\<close>,
  \<open>label\<close> and \<open>description\<close> only, none of which a number, a boolean, a string or
  an array has.
\<close>

fun getProp :: "jsvalue \<Rightarrow> string \<Rightarrow> exn + jsvalue" where
  "getProp JUndefined k = Inl (OtherError ''TypeError'')"
| "getProp JNull k = Inl (OtherError ''TypeError'')"
| "getProp (JObj kvs) k = Inr (case map_of kvs k of None \<Rightarrow> JUndefined | Some v \<Rightarrow> v)"
| "getProp v k = Inr JUndefined"

section \<open>Hexadecimal keys\<close>

definition is_hex_digit :: "char \<Rightarrow> bool" where
  "is_hex_digit c = (c \<in> set ''0123456789abcdefABCDEF'')"

text \<open>\<open>hexKeyRegex = /^0x[a-fA-F0-9]+$/\<close>, with no flag.\<close>

fun hexKeyRegex_test :: "string \<Rightarrow> bool" where
  "hexKeyRegex_test (c0 # c1 # rest) =
     (c0 = CHR ''0'' \<and> c1 = CHR ''x'' \<and> rest \<noteq> [] \<and> list_all is_hex_digit rest)"
| "hexKeyRegex_test s = False"

text \<open>The value of a hexadecimal digit, from its character code; it is applied to
  hexadecimal digits only.\<close>

definition hex_digit_value :: "char \<Rightarrow> nat" where
  "hex_digit_value c =
     (if c \<in> set ''0123456789'' then of_char c - of_char CHR ''0''
      else if c \<in> set ''abcdef'' then 10 + (of_char c - of_char CHR ''a'')
      else 10 + (of_char c - of_char CHR ''A''))"

definition hex_value :: "string \<Rightarrow> nat" where
  "hex_value ds = foldl (\<lambda>acc c. 16 * acc + hex_digit_value c) 0 ds"

fun bit_length :: "nat \<Rightarrow> nat" where
  "bit_length n = (if n = 0 then 0 else Suc (bit_length (n div 2)))"

text \<open>
  The double nearest to a natural number (round to nearest, ties to even): exact below
  \<open>2 ^ 53\<close>, and \<open>Infinity\<close> once the rounded value reaches \<open>2 ^ 1024\<close>.
\<close>

definition toNumber :: "nat \<Rightarrow> number" where
  "toNumber n =
     (if n < 2 ^ 53 then Fin (of_nat n)
      else
        let e = bit_length n - 53;
            q = n div 2 ^ e;
            r = n mod 2 ^ e;
            h = 2 ^ (e - 1);
            q' = (if h < r \<or> (r = h \<and> odd q) then q + 1 else q)
        in if 2 ^ 1024 \<le> q' * 2 ^ e then PosInfinity else Fin (of_nat (q' * 2 ^ e)))"

text \<open>
  \<open>parseInt(s, 16)\<close>: the value of the longest prefix of hexadecimal digits, \<open>NaN\<close> when
  there is none. The module calls it on \<open>id.slice(2)\<close> of a key that matched
  \<open>hexKeyRegex\<close>, a string of hexadecimal digits, where the white space, sign and
  \<open>0x\<close> prefix that \<open>parseInt\<close> would skip cannot occur.
\<close>

definition parseInt16 :: "string \<Rightarrow> number" where
  "parseInt16 s =
     (let ds = takeWhile is_hex_digit s
      in if ds = [] then NaN else toNumber (hex_value ds))"

section \<open>The classes\<close>

record NotificationState =
  st_id :: number
  st_label :: jsvalue
  st_description :: jsvalue

record NotificationEvent =
  ev_id :: number
  ev_label :: jsvalue
  ev_description :: jsvalue

text \<open>
  A \<open>Map\<close> is the list of its entries in insertion order: \<open>get\<close> is \<^const>\<open>map_of\<close>, and
  \<open>set\<close> is \<^const>\<open>AList.update\<close>, which replaces the value of a key that is there and
  appends the entry otherwise.
\<close>

record NotificationVariable =
  var_name :: jsvalue
  var_idle :: bool
  var_states :: "(number \<times> NotificationState) list"

record Notification =
  ntf_id :: number
  ntf_name :: jsvalue
  ntf_variables :: "NotificationVariable list"
  ntf_events :: "(number \<times> NotificationEvent) list"

definition malformed :: exn where
  "malformed = ZWaveError ''The config file is malformed!'' Config_Invalid"

definition throwInvalidConfig :: "exn + 'a" where
  "throwInvalidConfig = Inl malformed"

text \<open>
  Sequencing of statements that may throw: an exception of the first ends the
  computation, a value is handed to the rest.
\<close>

fun bind_exn :: "exn + 'a \<Rightarrow> ('a \<Rightarrow> exn + 'b) \<Rightarrow> exn + 'b" where
  "bind_exn (Inl e) f = Inl e"
| "bind_exn (Inr x) f = f x"

definition new_NotificationState :: "number \<Rightarrow> jsvalue \<Rightarrow> exn + NotificationState" where
  "new_NotificationState idn defn =
     bind_exn (getProp defn ''label'') (\<lambda>l.
     bind_exn (getProp defn ''description'') (\<lambda>d.
       Inr \<lparr>st_id = idn, st_label = l, st_description = d\<rparr>))"

definition new_NotificationEvent :: "number \<Rightarrow> jsvalue \<Rightarrow> exn + NotificationEvent" where
  "new_NotificationEvent idn defn =
     bind_exn (getProp defn ''label'') (\<lambda>l.
     bind_exn (getProp defn ''description'') (\<lambda>d.
       Inr \<lparr>ev_id = idn, ev_label = l, ev_description = d\<rparr>))"

text \<open>The loop of the \<open>NotificationVariable\<close> constructor over \<open>entries(definition.states)\<close>.\<close>

fun states_loop ::
  "(string \<times> jsvalue) list \<Rightarrow> (number \<times> NotificationState) list
     \<Rightarrow> exn + (number \<times> NotificationState) list" where
  "states_loop [] states = Inr states"
| "states_loop ((stateId, stateDefinition) # rest) states =
     (if \<not> hexKeyRegex_test stateId then throwInvalidConfig
      else
        let stateIdNum = parseInt16 (drop 2 stateId)
        in bind_exn (new_NotificationState stateIdNum stateDefinition) (\<lambda>st.
             states_loop rest (AList.update stateIdNum st states)))"

definition new_NotificationVariable :: "jsvalue \<Rightarrow> exn + NotificationVariable" where
  "new_NotificationVariable defn =
     bind_exn (getProp defn ''name'') (\<lambda>nm.
     bind_exn (getProp defn ''idle'') (\<lambda>idl.
     bind_exn (getProp defn ''states'') (\<lambda>sts.
       if \<not> isObject sts then throwInvalidConfig
       else
         bind_exn (states_loop (entries sts) []) (\<lambda>states.
           Inr \<lparr>var_name = nm, var_idle = (idl \<noteq> JBool False), var_states = states\<rparr>))))"

text \<open>\<open>definition.variables.map(v => new NotificationVariable(v))\<close>: the first exception ends it.\<close>

fun map_variables :: "jsvalue list \<Rightarrow> exn + NotificationVariable list" where
  "map_variables [] = Inr []"
| "map_variables (v # vs) =
     bind_exn (new_NotificationVariable v) (\<lambda>x.
     bind_exn (map_variables vs) (\<lambda>xs. Inr (x # xs)))"

text \<open>The loop of the \<open>Notification\<close> constructor over \<open>entries(definition.events)\<close>.\<close>

fun events_loop ::
  "(string \<times> jsvalue) list \<Rightarrow> (number \<times> NotificationEvent) list
     \<Rightarrow> exn + (number \<times> NotificationEvent) list" where
  "events_loop [] events = Inr events"
| "events_loop ((eventId, eventDefinition) # rest) events =
     (if \<not> hexKeyRegex_test eventId then throwInvalidConfig
      else
        let eventIdNum = parseInt16 (drop 2 eventId)
        in bind_exn (new_NotificationEvent eventIdNum eventDefinition) (\<lambda>ev.
             events_loop rest (AList.update eventIdNum ev events)))"

definition new_Notification :: "number \<Rightarrow> jsvalue \<Rightarrow> exn + Notification" where
  "new_Notification idn defn =
     bind_exn (getProp defn ''name'') (\<lambda>nm.
     bind_exn (getProp defn ''variables'') (\<lambda>vars.
     bind_exn (if isArray vars then map_variables (elements vars) else Inr []) (\<lambda>variables.
     bind_exn (getProp defn ''events'') (\<lambda>evs.
     bind_exn (if isObject evs then events_loop (entries evs) [] else Inr []) (\<lambda>events.
       Inr \<lparr>ntf_id = idn, ntf_name = nm, ntf_variables = variables, ntf_events = events\<rparr>)))))"

section \<open>Looking a value up\<close>

text \<open>
  The object literals \<open>lookupValue\<close> returns are lists of properties, as objects are.
  \<open>own_properties\<close> are the properties the \<open>NotificationEvent\<close> constructor assigns,
  \<open>rest_without\<close> is the rest pattern \<open>{ id, ...event }\<close>, and \<open>spread\<close> is
  \<open>{ ...event }\<close> inside an object literal.
\<close>

definition own_properties :: "NotificationEvent \<Rightarrow> (string \<times> jsvalue) list" where
  "own_properties e =
     [(''id'', JNum (ev_id e)), (''label'', ev_label e), (''description'', ev_description e)]"

definition rest_without :: "string \<Rightarrow> (string \<times> jsvalue) list \<Rightarrow> (string \<times> jsvalue) list" where
  "rest_without k ps = filter (\<lambda>p. fst p \<noteq> k) ps"

definition spread ::
  "(string \<times> jsvalue) list \<Rightarrow> (string \<times> jsvalue) list \<Rightarrow> (string \<times> jsvalue) list" where
  "spread obj src = foldl (\<lambda>ob p. AList.update (fst p) (snd p) ob) obj src"

definition lookupValue :: "Notification \<Rightarrow> number \<Rightarrow> (string \<times> jsvalue) list option" where
  "lookupValue this v =
     (case map_of (ntf_events this) v of
        Some e \<Rightarrow>
          Some (spread [(''type'', JStr ''event'')] (rest_without ''id'' (own_properties e)))
      | None \<Rightarrow>
          (case find (\<lambda>x. map_of (var_states x) v \<noteq> None) (ntf_variables this) of
             None \<Rightarrow> None
           | Some variable \<Rightarrow>
               (case map_of (var_states variable) v of
                  None \<Rightarrow> None
                | Some state \<Rightarrow>
                    Some [(''type'', JStr ''state''),
                          (''value'', JNum v),
                          (''idle'', JBool (var_idle variable)),
                          (''label'', st_label state),
                          (''description'', st_description state),
                          (''variableName'', var_name variable)])))"

section \<open>Loading the config file\<close>

text \<open>
  What is outside the module when a call is made: whether the config file exists
  (\<open>pathExists\<close> of \<open>fs-extra\<close>, which may reject), what \<open>readFile\<close> gives, and the
  parser \<open>JSON5.parse\<close>. The file can change between two calls, so each call has
  its own world.
\<close>

record world =
  pathExists :: "exn + bool"
  readFile :: "exn + string"
  JSON5_parse :: "string \<Rightarrow> exn + jsvalue"

text \<open>
  Modelled from the spec: the logger \<open>log\<close> is declared in \<open>../log\<close>, which is not among the
  sources; \<open>log.driver.print(message, level)\<close> emits one diagnostic message. The effects
  of a call are recorded in a trace: the two file operations and the diagnostics.
\<close>

datatype effect = IO_pathExists | IO_readFile | Log_print string string

fun loadNotifications_loop ::
  "(string \<times> jsvalue) list \<Rightarrow> (number \<times> Notification) list
     \<Rightarrow> exn + (number \<times> Notification) list" where
  "loadNotifications_loop [] ret = Inr ret"
| "loadNotifications_loop ((ident, ntfcnDefinition) # rest) ret =
     (if \<not> hexKeyRegex_test ident then throwInvalidConfig
      else
        let idNum = parseInt16 (drop 2 ident)
        in bind_exn (new_Notification idNum ntfcnDefinition) (\<lambda>n.
             loadNotifications_loop rest (AList.update idNum n ret)))"

text \<open>The \<open>catch\<close> of \<open>loadNotifications\<close>: a \<open>ZWaveError\<close> is thrown again, anything else
  becomes the malformed-config error.\<close>

fun load_rethrow :: "exn \<Rightarrow> exn" where
  "load_rethrow (ZWaveError msg code) = ZWaveError msg code"
| "load_rethrow (OtherError k) = malformed"

fun load_catch :: "exn + 'a \<Rightarrow> exn + 'a" where
  "load_catch (Inr x) = Inr x"
| "load_catch (Inl e) = Inl (load_rethrow e)"

definition missing :: exn where
  "missing = ZWaveError ''The config file does not exist!'' Config_Invalid"

definition loadNotifications :: "world \<Rightarrow> (exn + (number \<times> Notification) list) \<times> effect list" where
  "loadNotifications w =
     (case pathExists w of
        Inl e \<Rightarrow> (Inl e, [IO_pathExists])
      | Inr ex \<Rightarrow>
          if \<not> ex then (Inl missing, [IO_pathExists])
          else
            (load_catch
               (bind_exn (readFile w) (\<lambda>fileContents.
                bind_exn (JSON5_parse w fileContents) (\<lambda>defn.
                  if \<not> isObject defn then throwInvalidConfig
                  else loadNotifications_loop (entries defn) []))),
             [IO_pathExists, IO_readFile]))"

section \<open>The entry point\<close>

text \<open>The module-level variable \<open>notifications\<close>, \<open>None\<close> while it is \<open>undefined\<close>, and the
  trace of the effects so far.\<close>

record process =
  notifications :: "(number \<times> Notification) list option"
  trace :: "effect list"

definition process_start :: process where
  "process_start = \<lparr>notifications = None, trace = []\<rparr>"

text \<open>The test of the \<open>catch\<close> in \<open>lookupNotification\<close>:
  \<open>e instanceof ZWaveError && e.code === ZWaveErrorCodes.Config_Invalid\<close>.\<close>

fun is_Config_Invalid :: "exn \<Rightarrow> bool" where
  "is_Config_Invalid (ZWaveError msg code) = (code = Config_Invalid)"
| "is_Config_Invalid (OtherError k) = False"

fun message :: "exn \<Rightarrow> string" where
  "message (ZWaveError msg code) = msg"
| "message (OtherError k) = k"

text \<open>
  One call of \<open>lookupNotification\<close>, run to its end: the value returned or the exception
  thrown, and the process afterwards.
\<close>

definition lookupNotification ::
  "world \<Rightarrow> number \<Rightarrow> process \<Rightarrow> (exn + Notification option) \<times> process" where
  "lookupNotification w notificationType s =
     (case notifications s of
        Some m \<Rightarrow> (Inr (map_of m notificationType), s)
      | None \<Rightarrow>
          (case loadNotifications w of
             (Inr m, fx) \<Rightarrow>
               (Inr (map_of m notificationType),
                s\<lparr>notifications := Some m, trace := trace s @ fx\<rparr>)
           | (Inl e, fx) \<Rightarrow>
               if is_Config_Invalid e then
                 (Inr (map_of [] notificationType),
                  s\<lparr>notifications := Some [],
                    trace := trace s @ fx @
                      [Log_print (''Could not load notification config: '' @ message e) ''error'']\<rparr>)
               else (Inl e, s\<lparr>trace := trace s @ fx\<rparr>)))"

text \<open>The calls of a process, one after the other, each run to its end before the next
  begins and each in the world of its time.\<close>

fun lookupNotification_calls ::
  "(world \<times> number) list \<Rightarrow> process \<Rightarrow> (exn + Notification option) list \<times> process" where
  "lookupNotification_calls [] s = ([], s)"
| "lookupNotification_calls ((w, notificationType) # cs) s =
     (case lookupNotification w notificationType s of
        (r, s') \<Rightarrow> (case lookupNotification_calls cs s' of (rs, s'') \<Rightarrow> (r # rs, s'')))"

section \<open>Predicates of the statements\<close>

fun is_ZWaveError :: "exn \<Rightarrow> bool" where
  "is_ZWaveError (ZWaveError msg code) = True"
| "is_ZWaveError (OtherError k) = False"

fun throws_ZWaveError :: "exn + 'a \<Rightarrow> bool" where
  "throws_ZWaveError (Inl e) = is_ZWaveError e"
| "throws_ZWaveError (Inr x) = False"

fun is_Log_print :: "effect \<Rightarrow> bool" where
  "is_Log_print (Log_print msg level) = True"
| "is_Log_print fx = False"

section \<open>The three loops are one loop\<close>

text \<open>
  The loops over the top-level entries, the events and the states differ in the
  constructor they call only. \<open>keyed_loop\<close> is that loop with the constructor as a
  parameter; it is used in proofs, and shown below to be equal to each of the three.
\<close>

fun keyed_loop ::
  "(number \<Rightarrow> jsvalue \<Rightarrow> exn + 'a) \<Rightarrow> (string \<times> jsvalue) list \<Rightarrow> (number \<times> 'a) list
     \<Rightarrow> exn + (number \<times> 'a) list" where
  "keyed_loop ctor [] ret = Inr ret"
| "keyed_loop ctor ((k, d) # rest) ret =
     (if \<not> hexKeyRegex_test k then throwInvalidConfig
      else bind_exn (ctor (parseInt16 (drop 2 k)) d) (\<lambda>x.
             keyed_loop ctor rest (AList.update (parseInt16 (drop 2 k)) x ret)))"

section \<open>The resolution of the specification\<close>

text \<open>
  For comparison with the entry point, \<open>resolve(notificationType, value)\<close> as section 4.2
  of the specification words it: load on first use as the entry point does, look
  \<open>notificationType\<close> up in the mapping, give absent when it is not there and the
  result of the notification's \<open>lookupValue(value)\<close> otherwise.
\<close>

definition resolve_spec ::
  "world \<Rightarrow> number \<Rightarrow> number \<Rightarrow> process \<Rightarrow> (exn + (string \<times> jsvalue) list option) \<times> process" where
  "resolve_spec w notificationType v s =
     (case notifications s of
        Some m \<Rightarrow>
          (Inr (case map_of m notificationType of None \<Rightarrow> None | Some n \<Rightarrow> lookupValue n v), s)
      | None \<Rightarrow>
          (case loadNotifications w of
             (Inr m, fx) \<Rightarrow>
               (Inr (case map_of m notificationType of None \<Rightarrow> None | Some n \<Rightarrow> lookupValue n v),
                s\<lparr>notifications := Some m, trace := trace s @ fx\<rparr>)
           | (Inl e, fx) \<Rightarrow>
               if is_Config_Invalid e then
                 (Inr None,
                  s\<lparr>notifications := Some [],
                    trace := trace s @ fx @
                      [Log_print (''Could not load notification config: '' @ message e) ''error'']\<rparr>)
               else (Inl e, s\<lparr>trace := trace s @ fx\<rparr>)))"

text \<open>The notification built from a value without properties.\<close>

definition empty_notification :: "number \<Rightarrow> Notification" where
  "empty_notification i =
     \<lparr>ntf_id = i, ntf_name = JUndefined, ntf_variables = [], ntf_events = []\<rparr>"

section \<open>Concrete inputs\<close>

definition idle_omitted :: "(string \<times> jsvalue) list" where
  "idle_omitted = [(''name'', JStr ''Sensor''), (''states'', JObj [])]"

definition idle_no :: "(string \<times> jsvalue) list" where
  "idle_no = [(''name'', JStr ''Sensor''), (''idle'', JStr ''no''), (''states'', JObj [])]"

definition idle_false :: "(string \<times> jsvalue) list" where
  "idle_false = [(''name'', JStr ''Sensor''), (''idle'', JBool False), (''states'', JObj [])]"

text \<open>A parser that knows one text: it gives that text's value, and a \<open>SyntaxError\<close> otherwise.\<close>

definition parse_only :: "string \<Rightarrow> jsvalue \<Rightarrow> string \<Rightarrow> exn + jsvalue" where
  "parse_only text v s = (if s = text then Inr v else Inl (OtherError ''SyntaxError''))"

definition world_missing :: world where
  "world_missing =
     \<lparr>pathExists = Inr False, readFile = Inl (OtherError ''ENOENT''),
      JSON5_parse = parse_only ''{}'' (JObj [])\<rparr>"

definition world_array_root :: world where
  "world_array_root =
     \<lparr>pathExists = Inr True, readFile = Inr ''[]'',
      JSON5_parse = parse_only ''[]'' (JArr [])\<rparr>"

definition state_five :: NotificationState where
  "state_five = \<lparr>st_id = Fin 5, st_label = JStr ''state five'', st_description = JUndefined\<rparr>"

definition event_five :: NotificationEvent where
  "event_five = \<lparr>ev_id = Fin 5, ev_label = JStr ''event five'', ev_description = JUndefined\<rparr>"

definition both_five :: Notification where
  "both_five =
     \<lparr>ntf_id = Fin 6, ntf_name = JStr ''Water'',
      ntf_variables = [\<lparr>var_name = JStr ''Leak'', var_idle = True,
                        var_states = [(Fin 5, state_five)]\<rparr>],
      ntf_events = [(Fin 5, event_five)]\<rparr>"

definition water_json :: jsvalue where
  "water_json =
     JObj [(''0x6'', JObj [(''name'', JStr ''Water''),
        (''variables'', JArr [JObj [(''name'', JStr ''Leak detected''),
           (''states'', JObj [(''0x1'', JObj [(''label'', JStr ''Leak'')]),
                              (''0x2'', JObj [(''label'', JStr ''No leak'')])])]])])]"

definition water :: Notification where
  "water =
     \<lparr>ntf_id = Fin 6, ntf_name = JStr ''Water'',
      ntf_variables =
        [\<lparr>var_name = JStr ''Leak detected'', var_idle = True,
          var_states =
            [(Fin 1, \<lparr>st_id = Fin 1, st_label = JStr ''Leak'', st_description = JUndefined\<rparr>),
             (Fin 2, \<lparr>st_id = Fin 2, st_label = JStr ''No leak'', st_description = JUndefined\<rparr>)]\<rparr>],
      ntf_events = []\<rparr>"

definition world_water :: world where
  "world_water =
     \<lparr>pathExists = Inr True, readFile = Inr ''water'',
      JSON5_parse = parse_only ''water'' water_json\<rparr>"

definition failed_process :: process where
  "failed_process =
     \<lparr>notifications = Some [],
      trace = [IO_pathExists,
               Log_print ''Could not load notification config: The config file does not exist!''
                 ''error'']\<rparr>"

definition world_rejecting :: world where
  "world_rejecting =
     \<lparr>pathExists = Inl (OtherError ''EIO''), readFile = Inl (OtherError ''EIO''),
      JSON5_parse = parse_only ''water'' water_json\<rparr>"

definition rejected_process :: process where
  "rejected_process = \<lparr>notifications = None, trace = [IO_pathExists]\<rparr>"

definition bad_key_json :: jsvalue where
  "bad_key_json = JObj [(''0x6'', JObj [(''name'', JStr ''Water'')]), (''zz'', JObj [])]"

definition world_bad_key :: world where
  "world_bad_key =
     \<lparr>pathExists = Inr True, readFile = Inr ''bad key'',
      JSON5_parse = parse_only ''bad key'' bad_key_json\<rparr>"

definition no_variables_json :: jsvalue where
  "no_variables_json = JObj [(''name'', JStr ''Smoke''), (''variables'', JStr ''none'')]"

definition no_states_variable :: jsvalue where
  "no_states_variable = JObj [(''name'', JStr ''Sensor status'')]"

definition no_states_json :: jsvalue where
  "no_states_json =
     JObj [(''0x1'', JObj [(''name'', JStr ''Smoke''),
                            (''variables'', JArr [no_states_variable])])]"

definition world_no_states :: world where
  "world_no_states =
     \<lparr>pathExists = Inr True, readFile = Inr ''no states'',
      JSON5_parse = parse_only ''no states'' no_states_json\<rparr>"

definition dup_states :: "(string \<times> jsvalue) list" where
  "dup_states = [(''0x1'', JObj [(''label'', JStr ''one'')]),
                 (''0x01'', JObj [(''label'', JStr ''uno'')])]"

definition dup_events :: "(string \<times> jsvalue) list" where
  "dup_events = [(''0x5'', JObj [(''label'', JStr ''five'')]),
                 (''0x05'', JObj [(''label'', JStr ''cinq'')])]"

definition dup_second :: jsvalue where
  "dup_second =
     JObj [(''name'', JStr ''Second''),
           (''variables'', JArr [JObj [(''name'', JStr ''V''), (''states'', JObj dup_states)]]),
           (''events'', JObj dup_events)]"

definition dup_top :: "(string \<times> jsvalue) list" where
  "dup_top = [(''0x6'', JObj [(''name'', JStr ''First'')]), (''0x06'', dup_second)]"

definition world_dup :: world where
  "world_dup =
     \<lparr>pathExists = Inr True, readFile = Inr ''dup'',
      JSON5_parse = parse_only ''dup'' (JObj dup_top)\<rparr>"

definition uno :: NotificationState where
  "uno = \<lparr>st_id = Fin 1, st_label = JStr ''uno'', st_description = JUndefined\<rparr>"

definition cinq :: NotificationEvent where
  "cinq = \<lparr>ev_id = Fin 5, ev_label = JStr ''cinq'', ev_description = JUndefined\<rparr>"

definition second :: Notification where
  "second =
     \<lparr>ntf_id = Fin 6, ntf_name = JStr ''Second'',
      ntf_variables = [\<lparr>var_name = JStr ''V'', var_idle = True, var_states = [(Fin 1, uno)]\<rparr>],
      ntf_events = [(Fin 5, cinq)]\<rparr>"

definition world_null :: world where
  "world_null =
     \<lparr>pathExists = Inr True, readFile = Inr ''null entry'',
      JSON5_parse = parse_only ''null entry'' (JObj [(''0x6'', JNull)])\<rparr>"

definition world_number :: world where
  "world_number =
     \<lparr>pathExists = Inr True, readFile = Inr ''number entry'',
      JSON5_parse = parse_only ''number entry'' (JObj [(''0x6'', JNum (Fin 5))])\<rparr>"

definition loaded_water :: process where
  "loaded_water = \<lparr>notifications = Some [(Fin 6, water)], trace = [IO_pathExists, IO_readFile]\<rparr>"

definition world_foreign_code :: world where
  "world_foreign_code =
     \<lparr>pathExists = Inl (ZWaveError ''The config file is malformed!'' (Other_Code 0)),
      readFile = Inr ''[]'', JSON5_parse = parse_only ''[]'' (JArr [])\<rparr>"

definition malformed_process :: process where
  "malformed_process =
     \<lparr>notifications = Some [],
      trace = [IO_pathExists, IO_readFile,
               Log_print ''Could not load notification config: The config file is malformed!''
                 ''error'']\<rparr>"

section \<open>Basic facts\<close>

lemma getProp_error: "getProp d k = Inl e \<Longrightarrow> e = OtherError ''TypeError''"
  by (cases d) auto

lemma getProp_Inr_all:
  assumes "getProp d k = Inr x"
  shows "\<exists>y. getProp d k' = Inr y"
  using assms by (cases d) auto

lemma getProp_primitive:
  assumes "\<not> isObject d" and "d \<noteq> JNull" and "d \<noteq> JUndefined"
  shows "getProp d k = Inr JUndefined"
  using assms by (cases d) auto

lemma bind_exn_Inr_iff:
  "bind_exn r f = Inr y \<longleftrightarrow> (\<exists>x. r = Inr x \<and> f x = Inr y)"
  by (cases r) auto

lemma bind_exn_Inl_iff:
  "bind_exn r f = Inl e \<longleftrightarrow> r = Inl e \<or> (\<exists>x. r = Inr x \<and> f x = Inl e)"
  by (cases r) auto

lemma throwInvalidConfig_simps [simp]:
  "throwInvalidConfig \<noteq> Inr x" "Inr x \<noteq> throwInvalidConfig"
  "throwInvalidConfig = Inl e \<longleftrightarrow> e = malformed"
  by (auto simp: throwInvalidConfig_def)

lemma load_catch_Inl_iff: "load_catch r = Inl e \<longleftrightarrow> (\<exists>e'. r = Inl e' \<and> e = load_rethrow e')"
  by (cases r) auto

section \<open>Hexadecimal keys, evaluated\<close>

lemmas eval_hex =
  parseInt16_def toNumber_def hex_value_def hex_digit_value_def is_hex_digit_def Let_def

lemmas eval_new =
  new_Notification_def new_NotificationVariable_def new_NotificationState_def
  new_NotificationEvent_def

lemma parseInt16_examples:
  "parseInt16 ''6'' = Fin 6" "parseInt16 ''06'' = Fin 6"
  "parseInt16 ''5'' = Fin 5" "parseInt16 ''05'' = Fin 5"
  "parseInt16 ''1'' = Fin 1" "parseInt16 ''01'' = Fin 1"
  by (simp_all add: eval_hex)

lemma hex_value_examples:
  "hex_value ''6'' = 6" "hex_value ''06'' = 6"
  "hex_value ''5'' = 5" "hex_value ''05'' = 5"
  "hex_value ''1'' = 1" "hex_value ''01'' = 1"
  by (simp_all add: hex_value_def hex_digit_value_def)

lemma hexKey_digits:
  assumes "hexKeyRegex_test k"
  shows "takeWhile is_hex_digit (drop 2 k) = drop 2 k \<and> drop 2 k \<noteq> []"
proof -
  from assms obtain c0 c1 rest where k: "k = c0 # c1 # rest"
    by (cases k rule: hexKeyRegex_test.cases) auto
  with assms have "rest \<noteq> []" and "list_all is_hex_digit rest" by auto
  then show ?thesis
    by (simp add: k list_all_iff takeWhile_eq_all_conv)
qed

lemma hexKey_parseInt16:
  "hexKeyRegex_test k \<Longrightarrow> parseInt16 (drop 2 k) = toNumber (hex_value (drop 2 k))"
proof -
  assume "hexKeyRegex_test k"
  from hexKey_digits [OF this] show ?thesis
    unfolding parseInt16_def Let_def by (simp only: if_False)
qed

section \<open>Errors inside the load become the malformed-config error\<close>

lemma load_rethrow_malformed [simp]: "load_rethrow malformed = malformed"
  by (simp add: malformed_def)

lemma getProp_rethrow: "getProp d k = Inl e \<Longrightarrow> load_rethrow e = malformed"
  by (drule getProp_error) simp

lemma new_NotificationState_rethrow:
  "new_NotificationState i d = Inl e \<Longrightarrow> load_rethrow e = malformed"
  by (auto simp: new_NotificationState_def bind_exn_Inl_iff dest: getProp_rethrow)

lemma new_NotificationEvent_rethrow:
  "new_NotificationEvent i d = Inl e \<Longrightarrow> load_rethrow e = malformed"
  by (auto simp: new_NotificationEvent_def bind_exn_Inl_iff dest: getProp_rethrow)

lemma states_loop_rethrow:
  "states_loop es acc = Inl e \<Longrightarrow> load_rethrow e = malformed"
proof (induction es arbitrary: acc)
  case Nil
  then show ?case by simp
next
  case (Cons p es)
  obtain k d where p: "p = (k, d)" by (cases p)
  from Cons.prems show ?case
    unfolding p
    by (auto simp: Let_def bind_exn_Inl_iff split: if_splits
        dest: new_NotificationState_rethrow Cons.IH)
qed

lemma events_loop_rethrow:
  "events_loop es acc = Inl e \<Longrightarrow> load_rethrow e = malformed"
proof (induction es arbitrary: acc)
  case Nil
  then show ?case by simp
next
  case (Cons p es)
  obtain k d where p: "p = (k, d)" by (cases p)
  from Cons.prems show ?case
    unfolding p
    by (auto simp: Let_def bind_exn_Inl_iff split: if_splits
        dest: new_NotificationEvent_rethrow Cons.IH)
qed

lemma new_NotificationVariable_rethrow:
  "new_NotificationVariable d = Inl e \<Longrightarrow> load_rethrow e = malformed"
  by (auto simp: new_NotificationVariable_def bind_exn_Inl_iff split: if_splits
      dest: getProp_rethrow states_loop_rethrow)

lemma map_variables_rethrow:
  "map_variables vs = Inl e \<Longrightarrow> load_rethrow e = malformed"
  by (induction vs arbitrary: e)
     (auto simp: bind_exn_Inl_iff dest: new_NotificationVariable_rethrow)

lemma new_Notification_rethrow:
  "new_Notification i d = Inl e \<Longrightarrow> load_rethrow e = malformed"
  by (auto simp: new_Notification_def bind_exn_Inl_iff split: if_splits
      dest: getProp_rethrow map_variables_rethrow events_loop_rethrow)

lemma loadNotifications_loop_rethrow:
  "loadNotifications_loop es acc = Inl e \<Longrightarrow> load_rethrow e = malformed"
proof (induction es arbitrary: acc)
  case Nil
  then show ?case by simp
next
  case (Cons p es)
  obtain k d where p: "p = (k, d)" by (cases p)
  from Cons.prems show ?case
    unfolding p
    by (auto simp: Let_def bind_exn_Inl_iff split: if_splits
        dest: new_Notification_rethrow Cons.IH)
qed

lemma load_rethrow_native: "\<not> is_ZWaveError e \<Longrightarrow> load_rethrow e = malformed"
  by (cases e) auto

lemma load_body_rethrow:
  assumes "\<not> throws_ZWaveError (readFile w)"
    and "\<forall>c. readFile w = Inr c \<longrightarrow> \<not> throws_ZWaveError (JSON5_parse w c)"
    and "bind_exn (readFile w) (\<lambda>fileContents.
           bind_exn (JSON5_parse w fileContents) (\<lambda>defn.
             if \<not> isObject defn then throwInvalidConfig
             else loadNotifications_loop (entries defn) [])) = Inl e"
  shows "load_rethrow e = malformed"
proof (cases "readFile w")
  case (Inl e1)
  with assms(1,3) show ?thesis by (simp add: load_rethrow_native)
next
  case (Inr c)
  note rf = this
  show ?thesis
  proof (cases "JSON5_parse w c")
    case (Inl e2)
    with assms(2,3) rf show ?thesis by (simp add: load_rethrow_native)
  next
    case (Inr d)
    with assms(3) rf show ?thesis
      by (auto split: if_splits dest: loadNotifications_loop_rethrow)
  qed
qed

lemma load_catch_loop_fails:
  assumes "loadNotifications_loop es acc = Inl e"
  shows "load_catch (loadNotifications_loop es acc) = Inl malformed"
  using assms loadNotifications_loop_rethrow [OF assms] by simp

section \<open>The load, case by case\<close>

lemma loadNotifications_missing:
  "pathExists w = Inr False \<Longrightarrow> loadNotifications w = (Inl missing, [IO_pathExists])"
  by (simp add: loadNotifications_def)

lemma loadNotifications_exists:
  "pathExists w = Inr True \<Longrightarrow>
   loadNotifications w =
     (load_catch
        (bind_exn (readFile w) (\<lambda>fileContents.
         bind_exn (JSON5_parse w fileContents) (\<lambda>defn.
           if \<not> isObject defn then throwInvalidConfig
           else loadNotifications_loop (entries defn) []))),
      [IO_pathExists, IO_readFile])"
  by (simp add: loadNotifications_def)

lemma loadNotifications_parsed:
  assumes "pathExists w = Inr True" and "readFile w = Inr contents"
    and "JSON5_parse w contents = Inr defn"
  shows "loadNotifications w =
           (load_catch (if \<not> isObject defn then throwInvalidConfig
                        else loadNotifications_loop (entries defn) []),
            [IO_pathExists, IO_readFile])"
  using assms by (simp add: loadNotifications_def)

lemma loadNotifications_ok:
  assumes "pathExists w = Inr True" and "readFile w = Inr contents"
    and "JSON5_parse w contents = Inr (JObj es)"
    and "loadNotifications_loop es [] = Inr m"
  shows "loadNotifications w = (Inr m, [IO_pathExists, IO_readFile])"
  using assms by (simp add: loadNotifications_def)

lemma loadNotifications_trace:
  "snd (loadNotifications w) = [IO_pathExists] \<or>
   snd (loadNotifications w) = [IO_pathExists, IO_readFile]"
  by (auto simp: loadNotifications_def split: sum.splits)

lemma loadNotifications_loop_entry_fails:
  assumes "p \<in> set es"
    and "\<not> hexKeyRegex_test (fst p) \<or>
         (\<exists>e. new_Notification (parseInt16 (drop 2 (fst p))) (snd p) = Inl e)"
  shows "\<exists>e. loadNotifications_loop es acc = Inl e"
  using assms
proof (induction es arbitrary: acc)
  case Nil
  then show ?case by simp
next
  case (Cons q es)
  obtain k d where q: "q = (k, d)" by (cases q)
  show ?case
  proof (cases "hexKeyRegex_test k")
    case False
    then show ?thesis by (simp add: q throwInvalidConfig_def)
  next
    case True
    note key = this
    show ?thesis
    proof (cases "new_Notification (parseInt16 (drop 2 k)) d")
      case (Inl e)
      with key show ?thesis by (simp add: q)
    next
      case (Inr n)
      with key Cons.prems q have "p \<in> set es" by auto
      from Cons.IH [OF this Cons.prems(2)] Inr key show ?thesis
        by (simp add: q)
    qed
  qed
qed

lemma load_water: "loadNotifications world_water = (Inr [(Fin 6, water)], [IO_pathExists, IO_readFile])"
  by (simp add: loadNotifications_def world_water_def parse_only_def water_json_def water_def
      eval_new eval_hex)

section \<open>The entry point, case by case\<close>

lemma lookupNotification_loaded:
  "notifications s = Some m \<Longrightarrow> lookupNotification w t s = (Inr (map_of m t), s)"
  by (simp add: lookupNotification_def)

lemma lookupNotification_recognized:
  assumes "notifications s = None" and "loadNotifications w = (Inl e, fx)"
    and "is_Config_Invalid e"
  shows "lookupNotification w t s =
           (Inr None,
            s\<lparr>notifications := Some [],
              trace := trace s @ fx @
                [Log_print (''Could not load notification config: '' @ message e) ''error'']\<rparr>)"
  using assms by (simp add: lookupNotification_def)

lemma lookupNotification_unrecognized:
  assumes "notifications s = None" and "loadNotifications w = (Inl e, fx)"
    and "\<not> is_Config_Invalid e"
  shows "lookupNotification w t s = (Inl e, s\<lparr>trace := trace s @ fx\<rparr>)"
  using assms by (simp add: lookupNotification_def)

lemma lookupNotification_load_ok:
  assumes "notifications s = None" and "loadNotifications w = (Inr m, fx)"
  shows "lookupNotification w t s =
           (Inr (map_of m t), s\<lparr>notifications := Some m, trace := trace s @ fx\<rparr>)"
  using assms by (simp add: lookupNotification_def)

lemma lookupNotification_calls_empty:
  "notifications s = Some [] \<Longrightarrow>
   lookupNotification_calls cs s = (map (\<lambda>c. Inr None) cs, s)"
  by (induction cs) (auto simp: lookupNotification_loaded)

lemma lookupNotification_Inr:
  assumes "lookupNotification w t s = (Inr r, s')"
  shows "\<exists>m. notifications s' = Some m \<and> r = map_of m t"
proof (cases "notifications s")
  case (Some m)
  with assms show ?thesis by (auto simp: lookupNotification_loaded)
next
  case None
  obtain res fx where load: "loadNotifications w = (res, fx)"
    by (cases "loadNotifications w")
  show ?thesis
  proof (cases res)
    case (Inr m)
    with lookupNotification_load_ok [OF None load [unfolded Inr]] assms show ?thesis
      by auto
  next
    case (Inl e)
    show ?thesis
    proof (cases "is_Config_Invalid e")
      case True
      with lookupNotification_recognized [OF None load [unfolded Inl]] assms show ?thesis
        by auto
    next
      case False
      with lookupNotification_unrecognized [OF None load [unfolded Inl]] assms show ?thesis
        by auto
    qed
  qed
qed

lemma is_Config_Invalid_iff: "is_Config_Invalid e \<longleftrightarrow> (\<exists>msg. e = ZWaveError msg Config_Invalid)"
  by (cases e) auto

lemma lookupNotification_recovers_iff:
  assumes "notifications s = None" and "fst (loadNotifications w) = Inl e"
  shows "(fst (lookupNotification w t s) = Inr None) = (\<exists>msg. e = ZWaveError msg Config_Invalid)"
    and "(\<not> (\<exists>msg. e = ZWaveError msg Config_Invalid) \<longrightarrow>
           fst (lookupNotification w t s) = Inl e
           \<and> notifications (snd (lookupNotification w t s)) = None)"
proof -
  obtain fx where load: "loadNotifications w = (Inl e, fx)"
    using assms(2) by (cases "loadNotifications w") auto
  show "(fst (lookupNotification w t s) = Inr None) = (\<exists>msg. e = ZWaveError msg Config_Invalid)"
  proof (cases "is_Config_Invalid e")
    case True
    with lookupNotification_recognized [OF assms(1) load] show ?thesis
      by (simp add: is_Config_Invalid_iff)
  next
    case False
    with lookupNotification_unrecognized [OF assms(1) load] show ?thesis
      by (simp add: is_Config_Invalid_iff)
  qed
  show "\<not> (\<exists>msg. e = ZWaveError msg Config_Invalid) \<longrightarrow>
           fst (lookupNotification w t s) = Inl e
           \<and> notifications (snd (lookupNotification w t s)) = None"
    using lookupNotification_unrecognized [OF assms(1) load] assms(1)
    by (simp add: is_Config_Invalid_iff)
qed

section \<open>The three loops as one\<close>

lemma states_loop_keyed: "states_loop es acc = keyed_loop new_NotificationState es acc"
proof (induction es arbitrary: acc)
  case Nil
  then show ?case by simp
next
  case (Cons p es)
  obtain k d where "p = (k, d)" by (cases p)
  with Cons.IH show ?case
    by (cases "new_NotificationState (parseInt16 (drop 2 k)) d") (simp_all add: Let_def)
qed

lemma events_loop_keyed: "events_loop es acc = keyed_loop new_NotificationEvent es acc"
proof (induction es arbitrary: acc)
  case Nil
  then show ?case by simp
next
  case (Cons p es)
  obtain k d where "p = (k, d)" by (cases p)
  with Cons.IH show ?case
    by (cases "new_NotificationEvent (parseInt16 (drop 2 k)) d") (simp_all add: Let_def)
qed

lemma loadNotifications_loop_keyed:
  "loadNotifications_loop es acc = keyed_loop new_Notification es acc"
proof (induction es arbitrary: acc)
  case Nil
  then show ?case by simp
next
  case (Cons p es)
  obtain k d where "p = (k, d)" by (cases p)
  with Cons.IH show ?case
    by (cases "new_Notification (parseInt16 (drop 2 k)) d") (simp_all add: Let_def)
qed

lemma keyed_loop_append:
  "keyed_loop ctor (xs @ ys) acc = bind_exn (keyed_loop ctor xs acc) (keyed_loop ctor ys)"
proof (induction xs arbitrary: acc)
  case Nil
  then show ?case by simp
next
  case (Cons p xs)
  obtain k d where p: "p = (k, d)" by (cases p)
  show ?case
  proof (cases "ctor (parseInt16 (drop 2 k)) d")
    case (Inl e)
    then show ?thesis by (simp add: p throwInvalidConfig_def)
  next
    case (Inr x)
    then show ?thesis by (simp add: p Cons.IH throwInvalidConfig_def)
  qed
qed

lemma keyed_loop_other_keys:
  assumes "keyed_loop ctor ys acc = Inr m"
    and "\<forall>p \<in> set ys. parseInt16 (drop 2 (fst p)) \<noteq> i"
  shows "map_of m i = map_of acc i"
  using assms
proof (induction ys arbitrary: acc)
  case Nil
  then show ?case by simp
next
  case (Cons p ys)
  obtain k d where p: "p = (k, d)" by (cases p)
  from Cons.prems(1) obtain x where
    x: "ctor (parseInt16 (drop 2 k)) d = Inr x"
    and rest: "keyed_loop ctor ys (AList.update (parseInt16 (drop 2 k)) x acc) = Inr m"
    by (auto simp: p bind_exn_Inr_iff split: if_splits)
  from Cons.prems(2) have "parseInt16 (drop 2 k) \<noteq> i" and "\<forall>p \<in> set ys. parseInt16 (drop 2 (fst p)) \<noteq> i"
    by (auto simp: p)
  with Cons.IH [OF rest] show ?case
    by (simp add: update_conv')
qed

lemma keyed_loop_all_ok:
  assumes "\<forall>p \<in> set es. hexKeyRegex_test (fst p) \<and>
             (\<exists>x. ctor (parseInt16 (drop 2 (fst p))) (snd p) = Inr x)"
  shows "\<exists>m. keyed_loop ctor es acc = Inr m"
  using assms
proof (induction es arbitrary: acc)
  case Nil
  then show ?case by simp
next
  case (Cons p es)
  obtain k d where p: "p = (k, d)" by (cases p)
  from Cons.prems obtain x where "hexKeyRegex_test k" "ctor (parseInt16 (drop 2 k)) d = Inr x"
    by (auto simp: p)
  moreover from Cons.prems have
    "\<exists>m. keyed_loop ctor es (AList.update (parseInt16 (drop 2 k)) x acc) = Inr m"
    by (intro Cons.IH) auto
  ultimately show ?case by (simp add: p)
qed

lemma keyed_loop_last_wins:
  assumes "keyed_loop ctor (xs @ (k, d) # ys) acc = Inr m"
    and "\<forall>p \<in> set ys. parseInt16 (drop 2 (fst p)) \<noteq> parseInt16 (drop 2 k)"
  shows "\<exists>x. ctor (parseInt16 (drop 2 k)) d = Inr x \<and> map_of m (parseInt16 (drop 2 k)) = Some x"
proof -
  from assms(1) obtain m1 where "keyed_loop ctor ((k, d) # ys) m1 = Inr m"
    by (auto simp: keyed_loop_append bind_exn_Inr_iff)
  then obtain x where x: "ctor (parseInt16 (drop 2 k)) d = Inr x"
    and rest: "keyed_loop ctor ys (AList.update (parseInt16 (drop 2 k)) x m1) = Inr m"
    by (auto simp: bind_exn_Inr_iff split: if_splits)
  from keyed_loop_other_keys [OF rest assms(2)] have "map_of m (parseInt16 (drop 2 k)) = Some x"
    by (simp add: update_conv')
  with x show ?thesis by blast
qed

lemma keyed_loop_duplicate:
  assumes ok: "\<forall>p \<in> set (xs @ (k1, d1) # ys @ (k2, d2) # zs). hexKeyRegex_test (fst p) \<and>
             (\<exists>x. ctor (parseInt16 (drop 2 (fst p))) (snd p) = Inr x)"
    and same: "hex_value (drop 2 k1) = hex_value (drop 2 k2)"
    and last: "\<forall>p \<in> set zs. parseInt16 (drop 2 (fst p)) \<noteq> parseInt16 (drop 2 k2)"
  shows "\<exists>m x2. keyed_loop ctor (xs @ (k1, d1) # ys @ (k2, d2) # zs) acc = Inr m
           \<and> ctor (parseInt16 (drop 2 k2)) d2 = Inr x2
           \<and> map_of m (parseInt16 (drop 2 k1)) = Some x2"
proof -
  from ok have "hexKeyRegex_test k1" and "hexKeyRegex_test k2" by auto
  with same have ids: "parseInt16 (drop 2 k1) = parseInt16 (drop 2 k2)"
    by (simp add: hexKey_parseInt16)
  from keyed_loop_all_ok [OF ok] obtain m where
    m: "keyed_loop ctor (xs @ (k1, d1) # ys @ (k2, d2) # zs) acc = Inr m"
    by blast
  then have "keyed_loop ctor ((xs @ (k1, d1) # ys) @ (k2, d2) # zs) acc = Inr m"
    by simp
  from keyed_loop_last_wins [OF this last] ids m show ?thesis
    by auto
qed

section \<open>A failed load is remembered\<close>

text \<open>
  Claim C1, for calls that run one after the other. When the first load fails with a
  \<open>Config_Invalid\<close> error, the call returns absent and leaves the mapping empty; every
  later call, whatever the world then is (the file may be there by then) and whatever
  type is asked for, returns absent and leaves the process as it is: no read of the
  file, no diagnostic, the mapping still empty.
\<close>

theorem failure_is_permanent:
  assumes "notifications s = None"
    and "fst (loadNotifications w) = Inl e"
    and "is_Config_Invalid e"
    and "lookupNotification w t s = (r, s1)"
  shows "r = Inr None
         \<and> notifications s1 = Some []
         \<and> lookupNotification_calls cs s1 = (map (\<lambda>c. Inr None) cs, s1)"
proof -
  obtain fx where "loadNotifications w = (Inl e, fx)"
    using assms(2) by (cases "loadNotifications w") auto
  from lookupNotification_recognized [OF assms(1) this assms(3)] assms(4)
  have "r = Inr None" and "notifications s1 = Some []"
    by auto
  then show ?thesis
    by (simp add: lookupNotification_calls_empty)
qed

theorem failure_is_permanent_witness:
  "notifications process_start = None
   \<and> fst (loadNotifications world_missing) = Inl missing
   \<and> is_Config_Invalid missing
   \<and> lookupNotification world_missing (Fin 6) process_start = (Inr None, failed_process)
   \<and> lookupNotification_calls [(world_water, Fin 6), (world_missing, Fin 7)] failed_process
       = ([Inr None, Inr None], failed_process)"
proof -
  have a: "notifications process_start = None"
    by (simp add: process_start_def)
  have b: "fst (loadNotifications world_missing) = Inl missing"
    by (simp add: loadNotifications_def world_missing_def)
  have c: "is_Config_Invalid missing"
    by (simp add: missing_def)
  have d: "lookupNotification world_missing (Fin 6) process_start = (Inr None, failed_process)"
    by (simp add: lookupNotification_def loadNotifications_def world_missing_def
        process_start_def failed_process_def missing_def)
  from failure_is_permanent [OF a b c d, of "[(world_water, Fin 6), (world_missing, Fin 7)]"]
  have "lookupNotification_calls [(world_water, Fin 6), (world_missing, Fin 7)] failed_process
       = ([Inr None, Inr None], failed_process)"
    by simp
  with a b c d show ?thesis by blast
qed

section \<open>What the entry point returns\<close>

text \<open>
  Claim C2, amended. The entry point takes the notification type only. A call that
  returns leaves the mapping loaded and returns what the mapping holds for the type:
  absent, or the notification itself. The specification's \<open>resolve\<close> is the entry point
  followed by \<open>lookupValue(value)\<close> on the notification returned.
\<close>

theorem entry_point_returns_notification:
  "(lookupNotification w t s = (Inr r, s') \<longrightarrow>
      (\<exists>m. notifications s' = Some m \<and> r = map_of m t))
   \<and> resolve_spec w t v s =
       (case lookupNotification w t s of
          (Inl e, s1) \<Rightarrow> (Inl e, s1)
        | (Inr None, s1) \<Rightarrow> (Inr None, s1)
        | (Inr (Some n), s1) \<Rightarrow> (Inr (lookupValue n v), s1))"
proof (intro conjI impI)
  assume "lookupNotification w t s = (Inr r, s')"
  then show "\<exists>m. notifications s' = Some m \<and> r = map_of m t"
    by (rule lookupNotification_Inr)
next
  show "resolve_spec w t v s =
       (case lookupNotification w t s of
          (Inl e, s1) \<Rightarrow> (Inl e, s1)
        | (Inr None, s1) \<Rightarrow> (Inr None, s1)
        | (Inr (Some n), s1) \<Rightarrow> (Inr (lookupValue n v), s1))"
    by (simp add: resolve_spec_def lookupNotification_def split: option.splits sum.splits prod.splits)
qed

theorem entry_point_returns_notification_witness:
  "lookupNotification world_water (Fin 6) process_start = (Inr (Some water), loaded_water)
   \<and> notifications loaded_water = Some [(Fin 6, water)]
   \<and> Some water = map_of [(Fin 6, water)] (Fin 6)
   \<and> resolve_spec world_water (Fin 6) (Fin 1) process_start =
        (Inr (lookupValue water (Fin 1)), loaded_water)"
proof -
  have a: "lookupNotification world_water (Fin 6) process_start = (Inr (Some water), loaded_water)"
    by (simp add: lookupNotification_def load_water process_start_def loaded_water_def)
  from entry_point_returns_notification
         [of world_water "Fin 6" process_start "Some water" loaded_water "Fin 1"] a
  have "(\<exists>m. notifications loaded_water = Some m \<and> Some water = map_of m (Fin 6))"
    and b: "resolve_spec world_water (Fin 6) (Fin 1) process_start =
        (Inr (lookupValue water (Fin 1)), loaded_water)"
    by simp_all
  then have "notifications loaded_water = Some [(Fin 6, water)]
     \<and> Some water = map_of [(Fin 6, water)] (Fin 6)"
    by (simp add: loaded_water_def)
  with a b show ?thesis by blast
qed

text \<open>
  Claim C2 as stated fails: for type 6 and value 99 the entry point returns the
  notification, where \<open>lookupValue(99)\<close>, and so the specification's \<open>resolve\<close>, is absent.
\<close>

theorem entry_point_is_not_resolve:
  "fst (lookupNotification world_water (Fin 6) process_start) = Inr (Some water)
   \<and> lookupValue water (Fin 99) = None
   \<and> fst (resolve_spec world_water (Fin 6) (Fin 99) process_start) = Inr None"
  by (simp add: lookupNotification_def resolve_spec_def load_water process_start_def
      lookupValue_def water_def)

section \<open>A bad root or a bad key fails the whole load\<close>

text \<open>
  Claim C3. When the file exists, is read and parses, and the parsed root is not an
  object or has a top-level key that does not match \<open>hexKeyRegex\<close>, the load throws
  the malformed-config error, whatever the other entries are; no mapping is returned,
  and the entry point leaves the mapping empty, not filled with the valid entries.
\<close>

theorem bad_root_or_key_is_malformed:
  assumes "pathExists w = Inr True" and "readFile w = Inr contents"
    and "JSON5_parse w contents = Inr defn"
    and "\<not> isObject defn \<or> (\<exists>p \<in> set (entries defn). \<not> hexKeyRegex_test (fst p))"
  shows "fst (loadNotifications w) = Inl malformed
         \<and> (notifications s = None \<longrightarrow>
              fst (lookupNotification w t s) = Inr None
              \<and> notifications (snd (lookupNotification w t s)) = Some [])"
proof -
  have load: "loadNotifications w = (Inl malformed, [IO_pathExists, IO_readFile])"
  proof (cases "isObject defn")
    case False
    then show ?thesis
      by (simp add: loadNotifications_parsed [OF assms(1-3)] throwInvalidConfig_def)
  next
    case True
    with assms(4) obtain p where "p \<in> set (entries defn)" "\<not> hexKeyRegex_test (fst p)"
      by blast
    then obtain e where "loadNotifications_loop (entries defn) [] = Inl e"
      using loadNotifications_loop_entry_fails by blast
    then have "load_catch (loadNotifications_loop (entries defn) []) = Inl malformed"
      by (rule load_catch_loop_fails)
    with True show ?thesis
      by (simp add: loadNotifications_parsed [OF assms(1-3)])
  qed
  have "is_Config_Invalid malformed" by (simp add: malformed_def)
  with load show ?thesis
    by (simp add: lookupNotification_recognized)
qed

theorem bad_root_or_key_is_malformed_witness:
  "pathExists world_bad_key = Inr True
   \<and> readFile world_bad_key = Inr ''bad key''
   \<and> JSON5_parse world_bad_key ''bad key'' = Inr bad_key_json
   \<and> (\<exists>p \<in> set (entries bad_key_json). \<not> hexKeyRegex_test (fst p))
   \<and> fst (loadNotifications world_bad_key) = Inl malformed
   \<and> fst (lookupNotification world_bad_key (Fin 6) process_start) = Inr None
   \<and> notifications (snd (lookupNotification world_bad_key (Fin 6) process_start)) = Some []
   \<and> pathExists world_array_root = Inr True
   \<and> readFile world_array_root = Inr ''[]''
   \<and> JSON5_parse world_array_root ''[]'' = Inr (JArr [])
   \<and> \<not> isObject (JArr [])
   \<and> fst (loadNotifications world_array_root) = Inl malformed"
proof -
  have a1: "pathExists world_bad_key = Inr True"
    and a2: "readFile world_bad_key = Inr ''bad key''"
    and a3: "JSON5_parse world_bad_key ''bad key'' = Inr bad_key_json"
    by (simp_all add: world_bad_key_def parse_only_def)
  have a4: "\<exists>p \<in> set (entries bad_key_json). \<not> hexKeyRegex_test (fst p)"
    by (simp add: bad_key_json_def)
  have a5: "notifications process_start = None"
    by (simp add: process_start_def)
  have b1: "pathExists world_array_root = Inr True"
    and b2: "readFile world_array_root = Inr ''[]''"
    and b3: "JSON5_parse world_array_root ''[]'' = Inr (JArr [])"
    by (simp_all add: world_array_root_def parse_only_def)
  have b4: "\<not> isObject (JArr [])" by simp
  from bad_root_or_key_is_malformed [OF a1 a2 a3 disjI2 [OF a4], of process_start "Fin 6"] a5
    bad_root_or_key_is_malformed [OF b1 b2 b3 disjI1 [OF b4], of process_start "Fin 6"]
  have "fst (loadNotifications world_bad_key) = Inl malformed
   \<and> fst (lookupNotification world_bad_key (Fin 6) process_start) = Inr None
   \<and> notifications (snd (lookupNotification world_bad_key (Fin 6) process_start)) = Some []
   \<and> fst (loadNotifications world_array_root) = Inl malformed"
    by simp
  with a1 a2 a3 a4 b1 b2 b3 b4 show ?thesis by blast
qed

section \<open>An unexpected error is thrown on\<close>

text \<open>
  Claim C4. When the load fails with an error that is not a \<open>Config_Invalid\<close> error,
  the call throws that error, prints no diagnostic and leaves \<open>notifications\<close>
  undefined; the next call starts the load again (it asks whether the file exists), and
  returns from the loaded mapping when that load succeeds.
\<close>

theorem unexpected_error_propagates:
  assumes "notifications s = None"
    and "fst (loadNotifications w) = Inl e"
    and "\<not> is_Config_Invalid e"
    and "lookupNotification w t s = (r, s1)"
  shows "r = Inl e
         \<and> notifications s1 = None
         \<and> filter is_Log_print (trace s1) = filter is_Log_print (trace s)
         \<and> (\<exists>rest. trace (snd (lookupNotification w' t' s1)) = trace s1 @ IO_pathExists # rest)
         \<and> (\<forall>m. fst (loadNotifications w') = Inr m \<longrightarrow>
               fst (lookupNotification w' t' s1) = Inr (map_of m t')
               \<and> notifications (snd (lookupNotification w' t' s1)) = Some m)"
proof -
  obtain fx where fx: "loadNotifications w = (Inl e, fx)"
    using assms(2) by (cases "loadNotifications w") auto
  from lookupNotification_unrecognized [OF assms(1) this assms(3)] assms(4)
  have r: "r = Inl e" and s1: "s1 = s\<lparr>trace := trace s @ fx\<rparr>"
    by auto
  from s1 assms(1) have unloaded: "notifications s1 = None" by simp
  have "fx = [IO_pathExists] \<or> fx = [IO_pathExists, IO_readFile]"
    using loadNotifications_trace [of w] fx by simp
  then have quiet: "filter is_Log_print (trace s1) = filter is_Log_print (trace s)"
    using s1 by auto
  have again: "\<exists>rest. trace (snd (lookupNotification w' t' s1)) = trace s1 @ IO_pathExists # rest"
  proof (cases "loadNotifications w'")
    case (Pair r' fx')
    have "fx' = [IO_pathExists] \<or> fx' = [IO_pathExists, IO_readFile]"
      using loadNotifications_trace [of w'] Pair by simp
    then show ?thesis
      using Pair unloaded by (cases r') (auto simp: lookupNotification_def)
  qed
  have retry: "\<forall>m. fst (loadNotifications w') = Inr m \<longrightarrow>
               fst (lookupNotification w' t' s1) = Inr (map_of m t')
               \<and> notifications (snd (lookupNotification w' t' s1)) = Some m"
  proof (intro allI impI)
    fix m assume "fst (loadNotifications w') = Inr m"
    then obtain fx' where "loadNotifications w' = (Inr m, fx')"
      by (cases "loadNotifications w'") auto
    from lookupNotification_load_ok [OF unloaded this]
    show "fst (lookupNotification w' t' s1) = Inr (map_of m t')
          \<and> notifications (snd (lookupNotification w' t' s1)) = Some m"
      by simp
  qed
  from r unloaded quiet again retry show ?thesis by blast
qed

theorem unexpected_error_propagates_witness:
  "notifications process_start = None
   \<and> fst (loadNotifications world_rejecting) = Inl (OtherError ''EIO'')
   \<and> \<not> is_Config_Invalid (OtherError ''EIO'')
   \<and> lookupNotification world_rejecting (Fin 6) process_start
       = (Inl (OtherError ''EIO''), rejected_process)
   \<and> fst (lookupNotification world_water (Fin 6) rejected_process) = Inr (Some water)
   \<and> notifications (snd (lookupNotification world_water (Fin 6) rejected_process))
       = Some [(Fin 6, water)]"
proof -
  have a: "notifications process_start = None"
    by (simp add: process_start_def)
  have b: "fst (loadNotifications world_rejecting) = Inl (OtherError ''EIO'')"
    by (simp add: loadNotifications_def world_rejecting_def)
  have c: "\<not> is_Config_Invalid (OtherError ''EIO'')"
    by simp
  have d: "lookupNotification world_rejecting (Fin 6) process_start
       = (Inl (OtherError ''EIO''), rejected_process)"
    by (simp add: lookupNotification_def loadNotifications_def world_rejecting_def
        process_start_def rejected_process_def)
  have e: "fst (loadNotifications world_water) = Inr [(Fin 6, water)]"
    by (simp add: load_water)
  from unexpected_error_propagates [OF a b c d, of world_water "Fin 6"] e
  have "fst (lookupNotification world_water (Fin 6) rejected_process) = Inr (Some water)
   \<and> notifications (snd (lookupNotification world_water (Fin 6) rejected_process))
       = Some [(Fin 6, water)]"
    by simp
  with a b c d show ?thesis by blast
qed

section \<open>Events before states\<close>

lemma event_object:
  "spread [(''type'', JStr ''event'')] (rest_without ''id'' (own_properties e)) =
     [(''type'', JStr ''event''), (''label'', ev_label e), (''description'', ev_description e)]"
  by (simp add: spread_def rest_without_def own_properties_def)

text \<open>
  Claim C5. A value that is a key of the events of a notification and also a key of
  the states of one of its variables is looked up as the event: the result is the
  object tagged \<open>event\<close> with the event's label and description and nothing else
  (not the event's id), never the object tagged \<open>state\<close>.
\<close>

theorem event_wins:
  assumes "map_of (ntf_events n) v = Some e"
    and "\<exists>x \<in> set (ntf_variables n). map_of (var_states x) v \<noteq> None"
  shows "lookupValue n v =
           Some [(''type'', JStr ''event''), (''label'', ev_label e),
                 (''description'', ev_description e)]"
  using assms(1) by (simp add: lookupValue_def event_object)

theorem event_wins_witness:
  "map_of (ntf_events both_five) (Fin 5) = Some event_five
   \<and> (\<exists>x \<in> set (ntf_variables both_five). map_of (var_states x) (Fin 5) \<noteq> None)
   \<and> lookupValue both_five (Fin 5) =
       Some [(''type'', JStr ''event''), (''label'', JStr ''event five''),
             (''description'', JUndefined)]"
proof -
  have a: "map_of (ntf_events both_five) (Fin 5) = Some event_five"
    by (simp add: both_five_def)
  have b: "\<exists>x \<in> set (ntf_variables both_five). map_of (var_states x) (Fin 5) \<noteq> None"
    by (simp add: both_five_def)
  from event_wins [OF a b] have
    "lookupValue both_five (Fin 5) =
       Some [(''type'', JStr ''event''), (''label'', JStr ''event five''),
             (''description'', JUndefined)]"
    by (simp add: event_five_def)
  with a b show ?thesis by blast
qed

section \<open>Lenient variables, strict states\<close>

lemma map_variables_element_fails:
  assumes "v \<in> set vs" and "new_NotificationVariable v = Inl e"
  shows "\<exists>e'. map_variables vs = Inl e'"
  using assms
proof (induction vs)
  case Nil
  then show ?case by simp
next
  case (Cons x xs)
  show ?case
  proof (cases "new_NotificationVariable x")
    case (Inl e1)
    then show ?thesis by simp
  next
    case (Inr y)
    with Cons.prems have "v \<in> set xs" by auto
    from Cons.IH [OF this Cons.prems(2)] Inr show ?thesis
      by auto
  qed
qed

lemma new_NotificationVariable_states_not_object:
  assumes "getProp v ''states'' = Inr sts" and "\<not> isObject sts"
  shows "new_NotificationVariable v = Inl malformed"
proof -
  obtain nm idl where "getProp v ''name'' = Inr nm" "getProp v ''idle'' = Inr idl"
    using getProp_Inr_all [OF assms(1)] by blast
  with assms show ?thesis
    by (simp add: new_NotificationVariable_def)
qed

lemma new_Notification_variable_fails:
  assumes "getProp ntf ''variables'' = Inr (JArr vs)" and "map_variables vs = Inl e"
  shows "new_Notification i ntf = Inl e"
proof -
  obtain nm where "getProp ntf ''name'' = Inr nm"
    using getProp_Inr_all [OF assms(1)] by blast
  with assms show ?thesis
    by (simp add: new_Notification_def)
qed

text \<open>
  Claim C6. The two constructors differ in strictness. A notification whose
  \<open>variables\<close> property is missing or not an array gets the empty sequence of variables,
  and nothing is thrown for it: the construction succeeds as soon as the events build.
  A variable whose \<open>states\<close> property is missing or not an object throws the
  malformed-config error, and the load of a file that holds such a variable fails
  with that error.
\<close>

theorem variables_lenient_states_strict:
  "(getProp ntf ''name'' = Inr nm \<and> getProp ntf ''variables'' = Inr vars \<and> \<not> isArray vars
      \<and> getProp ntf ''events'' = Inr evs
      \<and> (if isObject evs then events_loop (entries evs) [] else Inr []) = Inr events
    \<longrightarrow> new_Notification i ntf =
          Inr \<lparr>ntf_id = i, ntf_name = nm, ntf_variables = [], ntf_events = events\<rparr>)
   \<and> (pathExists w = Inr True \<and> readFile w = Inr contents
      \<and> JSON5_parse w contents = Inr (JObj tops)
      \<and> (k, ntf') \<in> set tops \<and> getProp ntf' ''variables'' = Inr (JArr vs) \<and> v \<in> set vs
      \<and> getProp v ''states'' = Inr sts \<and> \<not> isObject sts
    \<longrightarrow> new_NotificationVariable v = Inl malformed
        \<and> fst (loadNotifications w) = Inl malformed)"
proof (intro conjI impI)
  assume "getProp ntf ''name'' = Inr nm \<and> getProp ntf ''variables'' = Inr vars \<and> \<not> isArray vars
      \<and> getProp ntf ''events'' = Inr evs
      \<and> (if isObject evs then events_loop (entries evs) [] else Inr []) = Inr events"
  then show "new_Notification i ntf =
          Inr \<lparr>ntf_id = i, ntf_name = nm, ntf_variables = [], ntf_events = events\<rparr>"
    by (simp add: new_Notification_def)
next
  assume h: "pathExists w = Inr True \<and> readFile w = Inr contents
      \<and> JSON5_parse w contents = Inr (JObj tops)
      \<and> (k, ntf') \<in> set tops \<and> getProp ntf' ''variables'' = Inr (JArr vs) \<and> v \<in> set vs
      \<and> getProp v ''states'' = Inr sts \<and> \<not> isObject sts"
  then show var: "new_NotificationVariable v = Inl malformed"
    by (simp add: new_NotificationVariable_states_not_object)
  from h obtain e where "map_variables vs = Inl e"
    using map_variables_element_fails [OF _ var] by blast
  with h have "\<And>j. new_Notification j ntf' = Inl e"
    by (simp add: new_Notification_variable_fails)
  then have "\<not> hexKeyRegex_test (fst (k, ntf')) \<or>
         (\<exists>e. new_Notification (parseInt16 (drop 2 (fst (k, ntf')))) (snd (k, ntf')) = Inl e)"
    by simp
  with h obtain e' where "loadNotifications_loop tops [] = Inl e'"
    using loadNotifications_loop_entry_fails [of "(k, ntf')" tops] by blast
  then have "load_catch (loadNotifications_loop tops []) = Inl malformed"
    by (rule load_catch_loop_fails)
  with h show "fst (loadNotifications w) = Inl malformed"
    by (simp add: loadNotifications_parsed [of w contents "JObj tops"])
qed

theorem variables_lenient_states_strict_witness:
  "getProp no_variables_json ''variables'' = Inr (JStr ''none'')
   \<and> \<not> isArray (JStr ''none'')
   \<and> new_Notification (Fin 1) no_variables_json =
       Inr \<lparr>ntf_id = Fin 1, ntf_name = JStr ''Smoke'', ntf_variables = [], ntf_events = []\<rparr>
   \<and> getProp no_states_variable ''states'' = Inr JUndefined
   \<and> \<not> isObject JUndefined
   \<and> new_NotificationVariable no_states_variable = Inl malformed
   \<and> fst (loadNotifications world_no_states) = Inl malformed"
proof -
  have a: "getProp no_variables_json ''name'' = Inr (JStr ''Smoke'')
      \<and> getProp no_variables_json ''variables'' = Inr (JStr ''none'')
      \<and> \<not> isArray (JStr ''none'')
      \<and> getProp no_variables_json ''events'' = Inr JUndefined
      \<and> (if isObject JUndefined then events_loop (entries JUndefined) [] else Inr []) = Inr []"
    by (simp add: no_variables_json_def)
  have b: "pathExists world_no_states = Inr True \<and> readFile world_no_states = Inr ''no states''
      \<and> JSON5_parse world_no_states ''no states''
          = Inr (JObj [(''0x1'', JObj [(''name'', JStr ''Smoke''),
                            (''variables'', JArr [no_states_variable])])])
      \<and> (''0x1'', JObj [(''name'', JStr ''Smoke''), (''variables'', JArr [no_states_variable])])
          \<in> set [(''0x1'', JObj [(''name'', JStr ''Smoke''),
                            (''variables'', JArr [no_states_variable])])]
      \<and> getProp (JObj [(''name'', JStr ''Smoke''), (''variables'', JArr [no_states_variable])])
            ''variables'' = Inr (JArr [no_states_variable])
      \<and> no_states_variable \<in> set [no_states_variable]
      \<and> getProp no_states_variable ''states'' = Inr JUndefined \<and> \<not> isObject JUndefined"
    by (simp add: world_no_states_def parse_only_def no_states_json_def no_states_variable_def)
  note inst = variables_lenient_states_strict
    [where ntf = no_variables_json and nm = "JStr ''Smoke''" and vars = "JStr ''none''"
       and evs = JUndefined and events = "[]" and i = "Fin 1"
       and w = world_no_states and contents = "''no states''"
       and tops = "[(''0x1'', JObj [(''name'', JStr ''Smoke''),
                                    (''variables'', JArr [no_states_variable])])]"
       and k = "''0x1''"
       and ntf' = "JObj [(''name'', JStr ''Smoke''), (''variables'', JArr [no_states_variable])]"
       and vs = "[no_states_variable]" and v = no_states_variable and sts = JUndefined]
  from inst a b show ?thesis by blast
qed

section \<open>The idle flag\<close>

lemma new_NotificationVariable_object:
  assumes "new_NotificationVariable d = Inr var"
  shows "\<exists>kvs. d = JObj kvs"
  using assms
  by (cases d) (auto simp: new_NotificationVariable_def)

text \<open>
  Claim C7. A variable built from a raw object is idle-capable unless the object's
  \<open>idle\<close> property is exactly the boolean \<open>false\<close>: the flag is true when the property is
  omitted and for every other value (\<open>true\<close>, the string \<open>"no"\<close>), and false only for
  \<open>false\<close>.
\<close>

theorem idle_unless_exactly_false:
  assumes "new_NotificationVariable (JObj kvs) = Inr var"
  shows "var_idle var = (map_of kvs ''idle'' \<noteq> Some (JBool False))"
proof -
  from assms have "var_idle var = ((case map_of kvs ''idle'' of None \<Rightarrow> JUndefined | Some v \<Rightarrow> v) \<noteq> JBool False)"
    unfolding new_NotificationVariable_def
    by (auto simp: bind_exn_Inr_iff split: if_splits)
  then show ?thesis
    by (cases "map_of kvs ''idle''") auto
qed

theorem idle_unless_exactly_false_witness:
  "new_NotificationVariable (JObj idle_omitted)
     = Inr \<lparr>var_name = JStr ''Sensor'', var_idle = True, var_states = []\<rparr>
   \<and> new_NotificationVariable (JObj idle_no)
     = Inr \<lparr>var_name = JStr ''Sensor'', var_idle = True, var_states = []\<rparr>
   \<and> new_NotificationVariable (JObj idle_false)
     = Inr \<lparr>var_name = JStr ''Sensor'', var_idle = False, var_states = []\<rparr>
   \<and> var_idle \<lparr>var_name = JStr ''Sensor'', var_idle = False, var_states = []\<rparr>
     = (map_of idle_false ''idle'' \<noteq> Some (JBool False))"
proof -
  have a: "new_NotificationVariable (JObj idle_omitted)
     = Inr \<lparr>var_name = JStr ''Sensor'', var_idle = True, var_states = []\<rparr>"
    by (simp add: new_NotificationVariable_def idle_omitted_def)
  have b: "new_NotificationVariable (JObj idle_no)
     = Inr \<lparr>var_name = JStr ''Sensor'', var_idle = True, var_states = []\<rparr>"
    by (simp add: new_NotificationVariable_def idle_no_def)
  have c: "new_NotificationVariable (JObj idle_false)
     = Inr \<lparr>var_name = JStr ''Sensor'', var_idle = False, var_states = []\<rparr>"
    by (simp add: new_NotificationVariable_def idle_false_def)
  from a b c idle_unless_exactly_false [OF c] show ?thesis
    by (intro conjI)
qed

section \<open>One error code for both failures\<close>

text \<open>
  Claim C8. When the file system and the parser throw errors of their own only, a load
  that fails throws a \<open>ZWaveError\<close> with the code \<open>Config_Invalid\<close> in both cases, the
  missing file and the malformed one; the two differ in the message text only. The
  entry point recovers from either: it returns absent, stores the empty mapping and
  prints the diagnostic with that message. Its test goes by the type and the code
  alone: a failed load is recovered exactly when the error is a \<open>ZWaveError\<close> with the
  code \<open>Config_Invalid\<close>, whatever the message; any other error, a \<open>ZWaveError\<close> with the
  same message and another code too, is thrown on and leaves \<open>notifications\<close> undefined.
\<close>

theorem load_failures_share_code:
  assumes "pathExists w = Inr ex"
    and "\<not> throws_ZWaveError (readFile w)"
    and "\<forall>c. readFile w = Inr c \<longrightarrow> \<not> throws_ZWaveError (JSON5_parse w c)"
    and "fst (loadNotifications w) = Inl e"
  shows "e = ZWaveError (if ex then ''The config file is malformed!''
                         else ''The config file does not exist!'') Config_Invalid
         \<and> is_Config_Invalid e
         \<and> message missing \<noteq> message malformed
         \<and> (notifications s = None \<longrightarrow>
              lookupNotification w t s =
                (Inr None,
                 s\<lparr>notifications := Some [],
                   trace := trace s @ snd (loadNotifications w) @
                     [Log_print (''Could not load notification config: '' @
                        (if ex then ''The config file is malformed!''
                         else ''The config file does not exist!'')) ''error'']\<rparr>))
         \<and> (notifications s = None \<and> fst (loadNotifications w') = Inl e' \<longrightarrow>
              ((fst (lookupNotification w' t' s) = Inr None)
                 = (\<exists>msg. e' = ZWaveError msg Config_Invalid))
              \<and> (\<not> (\<exists>msg. e' = ZWaveError msg Config_Invalid) \<longrightarrow>
                   fst (lookupNotification w' t' s) = Inl e'
                   \<and> notifications (snd (lookupNotification w' t' s)) = None))"
proof -
  have e: "e = ZWaveError (if ex then ''The config file is malformed!''
                         else ''The config file does not exist!'') Config_Invalid"
  proof (cases ex)
    case False
    with assms(1,4) have "e = missing"
      by (simp add: loadNotifications_missing)
    with False show ?thesis
      by (simp add: missing_def)
  next
    case True
    with assms(1,4) obtain e0 where
      "bind_exn (readFile w) (\<lambda>fileContents.
         bind_exn (JSON5_parse w fileContents) (\<lambda>defn.
           if \<not> isObject defn then throwInvalidConfig
           else loadNotifications_loop (entries defn) [])) = Inl e0"
      and "e = load_rethrow e0"
      by (auto simp: loadNotifications_exists load_catch_Inl_iff)
    with assms(2,3) have "e = malformed"
      using load_body_rethrow by blast
    with True show ?thesis
      by (simp add: malformed_def)
  qed
  then have code: "is_Config_Invalid e" by simp
  have msgs: "message missing \<noteq> message malformed"
    by (simp add: missing_def malformed_def)
  have recover: "notifications s = None \<longrightarrow>
              lookupNotification w t s =
                (Inr None,
                 s\<lparr>notifications := Some [],
                   trace := trace s @ snd (loadNotifications w) @
                     [Log_print (''Could not load notification config: '' @
                        (if ex then ''The config file is malformed!''
                         else ''The config file does not exist!'')) ''error'']\<rparr>)"
  proof
    assume unloaded: "notifications s = None"
    obtain fx where load: "loadNotifications w = (Inl e, fx)"
      using assms(4) by (cases "loadNotifications w") auto
    from lookupNotification_recognized [OF unloaded load code, of t] load e
    show "lookupNotification w t s =
                (Inr None,
                 s\<lparr>notifications := Some [],
                   trace := trace s @ snd (loadNotifications w) @
                     [Log_print (''Could not load notification config: '' @
                        (if ex then ''The config file is malformed!''
                         else ''The config file does not exist!'')) ''error'']\<rparr>)"
      by simp
  qed
  have test: "notifications s = None \<and> fst (loadNotifications w') = Inl e' \<longrightarrow>
              ((fst (lookupNotification w' t' s) = Inr None)
                 = (\<exists>msg. e' = ZWaveError msg Config_Invalid))
              \<and> (\<not> (\<exists>msg. e' = ZWaveError msg Config_Invalid) \<longrightarrow>
                   fst (lookupNotification w' t' s) = Inl e'
                   \<and> notifications (snd (lookupNotification w' t' s)) = None)"
    using lookupNotification_recovers_iff [of s w' e' t'] by blast
  from e code msgs recover test show ?thesis by blast
qed

theorem load_failures_share_code_witness:
  "pathExists world_missing = Inr False
   \<and> \<not> throws_ZWaveError (readFile world_missing)
   \<and> fst (loadNotifications world_missing) = Inl missing
   \<and> pathExists world_array_root = Inr True
   \<and> \<not> throws_ZWaveError (readFile world_array_root)
   \<and> \<not> throws_ZWaveError (JSON5_parse world_array_root ''[]'')
   \<and> fst (loadNotifications world_array_root) = Inl malformed
   \<and> is_Config_Invalid missing \<and> is_Config_Invalid malformed
   \<and> message missing \<noteq> message malformed
   \<and> notifications process_start = None
   \<and> lookupNotification world_missing (Fin 6) process_start = (Inr None, failed_process)
   \<and> lookupNotification world_array_root (Fin 6) process_start = (Inr None, malformed_process)
   \<and> fst (loadNotifications world_foreign_code)
       = Inl (ZWaveError ''The config file is malformed!'' (Other_Code 0))
   \<and> fst (lookupNotification world_foreign_code (Fin 6) process_start)
       = Inl (ZWaveError ''The config file is malformed!'' (Other_Code 0))
   \<and> notifications (snd (lookupNotification world_foreign_code (Fin 6) process_start)) = None"
proof -
  have a1: "pathExists world_missing = Inr False"
    and a2: "\<not> throws_ZWaveError (readFile world_missing)"
    and a3: "\<forall>c. readFile world_missing = Inr c \<longrightarrow> \<not> throws_ZWaveError (JSON5_parse world_missing c)"
    and a4: "fst (loadNotifications world_missing) = Inl missing"
    and a5: "snd (loadNotifications world_missing) = [IO_pathExists]"
    by (simp_all add: world_missing_def loadNotifications_def)
  have b1: "pathExists world_array_root = Inr True"
    and b2: "\<not> throws_ZWaveError (readFile world_array_root)"
    and b3: "\<forall>c. readFile world_array_root = Inr c \<longrightarrow> \<not> throws_ZWaveError (JSON5_parse world_array_root c)"
    and b3': "\<not> throws_ZWaveError (JSON5_parse world_array_root ''[]'')"
    and b4: "fst (loadNotifications world_array_root) = Inl malformed"
    and b5: "snd (loadNotifications world_array_root) = [IO_pathExists, IO_readFile]"
    by (simp_all add: world_array_root_def loadNotifications_def parse_only_def throwInvalidConfig_def)
  have c1: "notifications process_start = None"
    by (simp add: process_start_def)
  have c2: "fst (loadNotifications world_foreign_code)
       = Inl (ZWaveError ''The config file is malformed!'' (Other_Code 0))"
    by (simp add: world_foreign_code_def loadNotifications_def)
  note m = load_failures_share_code [OF a1 a2 a3 a4, of process_start "Fin 6" world_foreign_code
      "ZWaveError ''The config file is malformed!'' (Other_Code 0)" "Fin 6"]
  note r = load_failures_share_code [OF b1 b2 b3 b4, of process_start "Fin 6" world_foreign_code
      "ZWaveError ''The config file is malformed!'' (Other_Code 0)" "Fin 6"]
  from m r have d: "is_Config_Invalid missing \<and> is_Config_Invalid malformed
        \<and> message missing \<noteq> message malformed"
    by simp
  from m c1 a5 have e: "lookupNotification world_missing (Fin 6) process_start = (Inr None, failed_process)"
    by (simp add: process_start_def failed_process_def)
  from r c1 b5 have f: "lookupNotification world_array_root (Fin 6) process_start = (Inr None, malformed_process)"
    by (simp add: process_start_def malformed_process_def)
  from m c1 c2 have g: "fst (lookupNotification world_foreign_code (Fin 6) process_start)
       = Inl (ZWaveError ''The config file is malformed!'' (Other_Code 0))
   \<and> notifications (snd (lookupNotification world_foreign_code (Fin 6) process_start)) = None"
    by simp
  from a1 a2 a4 b1 b2 b3' b4 c1 c2 d e f g show ?thesis by blast
qed

section \<open>Duplicate ids\<close>

lemma states_dup: "states_loop dup_states [] = Inr [(Fin 1, uno)]"
  by (simp add: dup_states_def uno_def eval_new eval_hex)

lemma events_dup: "events_loop dup_events [] = Inr [(Fin 5, cinq)]"
  by (simp add: dup_events_def cinq_def eval_new eval_hex)

lemma new_second: "new_Notification (Fin 6) dup_second = Inr second"
  by (simp add: dup_second_def second_def new_Notification_def new_NotificationVariable_def
      states_dup events_dup)

lemma new_first:
  "new_Notification (Fin 6) (JObj [(''name'', JStr ''First'')]) =
     Inr \<lparr>ntf_id = Fin 6, ntf_name = JStr ''First'', ntf_variables = [], ntf_events = []\<rparr>"
  by (simp add: new_Notification_def)

text \<open>
  Claim C9. Two keys with the same hexadecimal value (\<open>0x6\<close> and \<open>0x06\<close>) are not
  rejected, at any of the three levels. When every entry is valid by itself the loop
  succeeds, and the id the two keys share is mapped to what the later entry builds
  (here the later one is the last with that id). At the top level the entry point
  returns that notification and its trace holds the two file operations only, no
  diagnostic.
\<close>

theorem duplicate_ids_overwrite:
  "(pathExists w = Inr True \<and> readFile w = Inr contents
      \<and> JSON5_parse w contents = Inr (JObj (xs @ (k1, d1) # ys @ (k2, d2) # zs))
      \<and> (\<forall>p \<in> set (xs @ (k1, d1) # ys @ (k2, d2) # zs). hexKeyRegex_test (fst p) \<and>
            (\<exists>n. new_Notification (parseInt16 (drop 2 (fst p))) (snd p) = Inr n))
      \<and> hex_value (drop 2 k1) = hex_value (drop 2 k2)
      \<and> (\<forall>p \<in> set zs. parseInt16 (drop 2 (fst p)) \<noteq> parseInt16 (drop 2 k2))
      \<and> notifications s = None
    \<longrightarrow> (\<exists>m n2. lookupNotification w (parseInt16 (drop 2 k1)) s =
                   (Inr (Some n2),
                    s\<lparr>notifications := Some m, trace := trace s @ [IO_pathExists, IO_readFile]\<rparr>)
                \<and> new_Notification (parseInt16 (drop 2 k2)) d2 = Inr n2))
   \<and> ((\<forall>p \<in> set (exs @ (ek1, ed1) # eys @ (ek2, ed2) # ezs). hexKeyRegex_test (fst p) \<and>
            (\<exists>e. new_NotificationEvent (parseInt16 (drop 2 (fst p))) (snd p) = Inr e))
      \<and> hex_value (drop 2 ek1) = hex_value (drop 2 ek2)
      \<and> (\<forall>p \<in> set ezs. parseInt16 (drop 2 (fst p)) \<noteq> parseInt16 (drop 2 ek2))
    \<longrightarrow> (\<exists>m e2. events_loop (exs @ (ek1, ed1) # eys @ (ek2, ed2) # ezs) [] = Inr m
                \<and> new_NotificationEvent (parseInt16 (drop 2 ek2)) ed2 = Inr e2
                \<and> map_of m (parseInt16 (drop 2 ek1)) = Some e2))
   \<and> ((\<forall>p \<in> set (sxs @ (sk1, sd1) # sys @ (sk2, sd2) # szs). hexKeyRegex_test (fst p) \<and>
            (\<exists>st. new_NotificationState (parseInt16 (drop 2 (fst p))) (snd p) = Inr st))
      \<and> hex_value (drop 2 sk1) = hex_value (drop 2 sk2)
      \<and> (\<forall>p \<in> set szs. parseInt16 (drop 2 (fst p)) \<noteq> parseInt16 (drop 2 sk2))
    \<longrightarrow> (\<exists>m st2. states_loop (sxs @ (sk1, sd1) # sys @ (sk2, sd2) # szs) [] = Inr m
                \<and> new_NotificationState (parseInt16 (drop 2 sk2)) sd2 = Inr st2
                \<and> map_of m (parseInt16 (drop 2 sk1)) = Some st2))"
proof (intro conjI impI)
  assume h: "pathExists w = Inr True \<and> readFile w = Inr contents
      \<and> JSON5_parse w contents = Inr (JObj (xs @ (k1, d1) # ys @ (k2, d2) # zs))
      \<and> (\<forall>p \<in> set (xs @ (k1, d1) # ys @ (k2, d2) # zs). hexKeyRegex_test (fst p) \<and>
            (\<exists>n. new_Notification (parseInt16 (drop 2 (fst p))) (snd p) = Inr n))
      \<and> hex_value (drop 2 k1) = hex_value (drop 2 k2)
      \<and> (\<forall>p \<in> set zs. parseInt16 (drop 2 (fst p)) \<noteq> parseInt16 (drop 2 k2))
      \<and> notifications s = None"
  then have ok: "\<forall>p \<in> set (xs @ (k1, d1) # ys @ (k2, d2) # zs). hexKeyRegex_test (fst p) \<and>
            (\<exists>n. new_Notification (parseInt16 (drop 2 (fst p))) (snd p) = Inr n)"
    and same: "hex_value (drop 2 k1) = hex_value (drop 2 k2)"
    and last: "\<forall>p \<in> set zs. parseInt16 (drop 2 (fst p)) \<noteq> parseInt16 (drop 2 k2)"
    by blast+
  from keyed_loop_duplicate [OF ok same last, of "[]"] obtain m n2 where
    m: "loadNotifications_loop (xs @ (k1, d1) # ys @ (k2, d2) # zs) [] = Inr m"
    and n2: "new_Notification (parseInt16 (drop 2 k2)) d2 = Inr n2"
    and at: "map_of m (parseInt16 (drop 2 k1)) = Some n2"
    unfolding loadNotifications_loop_keyed by blast
  from h m have "loadNotifications w = (Inr m, [IO_pathExists, IO_readFile])"
    by (intro loadNotifications_ok) auto
  with h at have "lookupNotification w (parseInt16 (drop 2 k1)) s =
                   (Inr (Some n2),
                    s\<lparr>notifications := Some m, trace := trace s @ [IO_pathExists, IO_readFile]\<rparr>)"
    by (simp add: lookupNotification_load_ok)
  with n2 show "\<exists>m n2. lookupNotification w (parseInt16 (drop 2 k1)) s =
                   (Inr (Some n2),
                    s\<lparr>notifications := Some m, trace := trace s @ [IO_pathExists, IO_readFile]\<rparr>)
                \<and> new_Notification (parseInt16 (drop 2 k2)) d2 = Inr n2"
    by blast
next
  assume "(\<forall>p \<in> set (exs @ (ek1, ed1) # eys @ (ek2, ed2) # ezs). hexKeyRegex_test (fst p) \<and>
            (\<exists>e. new_NotificationEvent (parseInt16 (drop 2 (fst p))) (snd p) = Inr e))
      \<and> hex_value (drop 2 ek1) = hex_value (drop 2 ek2)
      \<and> (\<forall>p \<in> set ezs. parseInt16 (drop 2 (fst p)) \<noteq> parseInt16 (drop 2 ek2))"
  then have ok: "\<forall>p \<in> set (exs @ (ek1, ed1) # eys @ (ek2, ed2) # ezs). hexKeyRegex_test (fst p) \<and>
            (\<exists>e. new_NotificationEvent (parseInt16 (drop 2 (fst p))) (snd p) = Inr e)"
    and same: "hex_value (drop 2 ek1) = hex_value (drop 2 ek2)"
    and last: "\<forall>p \<in> set ezs. parseInt16 (drop 2 (fst p)) \<noteq> parseInt16 (drop 2 ek2)"
    by blast+
  from keyed_loop_duplicate [OF ok same last, of "[]"]
  show "\<exists>m e2. events_loop (exs @ (ek1, ed1) # eys @ (ek2, ed2) # ezs) [] = Inr m
                \<and> new_NotificationEvent (parseInt16 (drop 2 ek2)) ed2 = Inr e2
                \<and> map_of m (parseInt16 (drop 2 ek1)) = Some e2"
    unfolding events_loop_keyed by blast
next
  assume "(\<forall>p \<in> set (sxs @ (sk1, sd1) # sys @ (sk2, sd2) # szs). hexKeyRegex_test (fst p) \<and>
            (\<exists>st. new_NotificationState (parseInt16 (drop 2 (fst p))) (snd p) = Inr st))
      \<and> hex_value (drop 2 sk1) = hex_value (drop 2 sk2)
      \<and> (\<forall>p \<in> set szs. parseInt16 (drop 2 (fst p)) \<noteq> parseInt16 (drop 2 sk2))"
  then have ok: "\<forall>p \<in> set (sxs @ (sk1, sd1) # sys @ (sk2, sd2) # szs). hexKeyRegex_test (fst p) \<and>
            (\<exists>st. new_NotificationState (parseInt16 (drop 2 (fst p))) (snd p) = Inr st)"
    and same: "hex_value (drop 2 sk1) = hex_value (drop 2 sk2)"
    and last: "\<forall>p \<in> set szs. parseInt16 (drop 2 (fst p)) \<noteq> parseInt16 (drop 2 sk2)"
    by blast+
  from keyed_loop_duplicate [OF ok same last, of "[]"]
  show "\<exists>m st2. states_loop (sxs @ (sk1, sd1) # sys @ (sk2, sd2) # szs) [] = Inr m
                \<and> new_NotificationState (parseInt16 (drop 2 sk2)) sd2 = Inr st2
                \<and> map_of m (parseInt16 (drop 2 sk1)) = Some st2"
    unfolding states_loop_keyed by blast
qed

theorem duplicate_ids_overwrite_witness:
  "fst (lookupNotification world_dup (Fin 6) process_start) = Inr (Some second)
   \<and> trace (snd (lookupNotification world_dup (Fin 6) process_start)) = [IO_pathExists, IO_readFile]
   \<and> ntf_name second = JStr ''Second''
   \<and> events_loop dup_events [] = Inr [(Fin 5, cinq)]
   \<and> states_loop dup_states [] = Inr [(Fin 1, uno)]"
proof -
  note inst = duplicate_ids_overwrite
    [where w = world_dup and contents = "''dup''" and xs = "[]" and ys = "[]" and zs = "[]"
       and ?k1.0 = "''0x6''" and ?d1.0 = "JObj [(''name'', JStr ''First'')]"
       and ?k2.0 = "''0x06''" and ?d2.0 = dup_second and s = process_start
       and exs = "[]" and eys = "[]" and ezs = "[]"
       and ?ek1.0 = "''0x5''" and ?ed1.0 = "JObj [(''label'', JStr ''five'')]"
       and ?ek2.0 = "''0x05''" and ?ed2.0 = "JObj [(''label'', JStr ''cinq'')]"
       and sxs = "[]" and sys = "[]" and szs = "[]"
       and ?sk1.0 = "''0x1''" and ?sd1.0 = "JObj [(''label'', JStr ''one'')]"
       and ?sk2.0 = "''0x01''" and ?sd2.0 = "JObj [(''label'', JStr ''uno'')]"]
  have top: "pathExists world_dup = Inr True \<and> readFile world_dup = Inr ''dup''
      \<and> JSON5_parse world_dup ''dup''
          = Inr (JObj ([] @ (''0x6'', JObj [(''name'', JStr ''First'')]) # [] @ (''0x06'', dup_second) # []))
      \<and> (\<forall>p \<in> set ([] @ (''0x6'', JObj [(''name'', JStr ''First'')]) # [] @ (''0x06'', dup_second) # []).
            hexKeyRegex_test (fst p) \<and>
            (\<exists>n. new_Notification (parseInt16 (drop 2 (fst p))) (snd p) = Inr n))
      \<and> hex_value (drop 2 ''0x6'') = hex_value (drop 2 ''0x06'')
      \<and> (\<forall>p \<in> set []. parseInt16 (drop 2 (fst p)) \<noteq> parseInt16 (drop 2 ''0x06''))
      \<and> notifications process_start = None"
    by (simp add: world_dup_def parse_only_def dup_top_def process_start_def is_hex_digit_def
        parseInt16_examples hex_value_examples new_second new_first)
  with inst have "\<exists>m n2. lookupNotification world_dup (parseInt16 (drop 2 ''0x6'')) process_start =
                   (Inr (Some n2),
                    process_start\<lparr>notifications := Some m,
                      trace := trace process_start @ [IO_pathExists, IO_readFile]\<rparr>)
                \<and> new_Notification (parseInt16 (drop 2 ''0x06'')) dup_second = Inr n2"
    by blast
  then have a: "fst (lookupNotification world_dup (Fin 6) process_start) = Inr (Some second)"
    and b: "trace (snd (lookupNotification world_dup (Fin 6) process_start))
              = [IO_pathExists, IO_readFile]"
    by (auto simp: parseInt16_examples new_second process_start_def)
  have c: "ntf_name second = JStr ''Second''"
    by (simp add: second_def)
  from a b c events_dup states_dup show ?thesis by blast
qed

section \<open>Top-level entries that are not objects\<close>

text \<open>
  Claim C10, amended. A top-level entry whose key matches \<open>hexKeyRegex\<close> and whose
  value is not an object and not \<open>null\<close> (a number, a string, a boolean, an array) is
  accepted: the constructor succeeds with an undefined name, no variables and no
  events, the loop goes on with that notification stored, and \<open>lookupValue\<close> of it is
  absent for every value.
\<close>

theorem non_object_entry_accepted:
  assumes "hexKeyRegex_test k" and "\<not> isObject d" and "d \<noteq> JNull" and "d \<noteq> JUndefined"
  shows "new_Notification i d = Inr (empty_notification i)
         \<and> lookupValue (empty_notification i) v = None
         \<and> loadNotifications_loop ((k, d) # rest) ret =
             loadNotifications_loop rest
               (AList.update (parseInt16 (drop 2 k)) (empty_notification (parseInt16 (drop 2 k))) ret)"
proof -
  have new: "new_Notification j d = Inr (empty_notification j)" for j
    by (simp add: new_Notification_def empty_notification_def getProp_primitive [OF assms(2-4)])
  have "lookupValue (empty_notification i) v = None"
    by (simp add: lookupValue_def empty_notification_def)
  with new assms(1) show ?thesis
    by (simp add: Let_def)
qed

theorem non_object_entry_accepted_witness:
  "hexKeyRegex_test ''0x6'' \<and> \<not> isObject (JNum (Fin 5))
   \<and> new_Notification (Fin 6) (JNum (Fin 5)) = Inr (empty_notification (Fin 6))
   \<and> lookupValue (empty_notification (Fin 6)) (Fin 1) = None
   \<and> fst (lookupNotification world_number (Fin 6) process_start)
       = Inr (Some (empty_notification (Fin 6)))"
proof -
  have a: "hexKeyRegex_test ''0x6''" by (simp add: is_hex_digit_def)
  have b: "\<not> isObject (JNum (Fin 5))" by simp
  have c: "JNum (Fin 5) \<noteq> JNull" and d: "JNum (Fin 5) \<noteq> JUndefined" by simp_all
  have e: "parseInt16 (drop 2 ''0x6'') = Fin 6" by (simp add: eval_hex)
  from non_object_entry_accepted [OF a b c d, of "Fin 6" "Fin 1" "[]" "[]"] e
  have f: "new_Notification (Fin 6) (JNum (Fin 5)) = Inr (empty_notification (Fin 6))"
    and g: "lookupValue (empty_notification (Fin 6)) (Fin 1) = None"
    and h: "loadNotifications_loop [(''0x6'', JNum (Fin 5))] [] =
              Inr [(Fin 6, empty_notification (Fin 6))]"
    by simp_all
  from h have "fst (lookupNotification world_number (Fin 6) process_start)
       = Inr (Some (empty_notification (Fin 6)))"
    by (simp add: lookupNotification_def loadNotifications_def world_number_def parse_only_def
        process_start_def)
  with a b f g show ?thesis by blast
qed

text \<open>
  Claim C10 as stated fails for \<open>null\<close>, which is not an object: reading \<open>null.name\<close>
  throws a \<open>TypeError\<close>, and the load fails with the malformed-config error.
\<close>

theorem null_entry_rejected:
  "hexKeyRegex_test ''0x6'' \<and> \<not> isObject JNull
   \<and> new_Notification (Fin 6) JNull = Inl (OtherError ''TypeError'')
   \<and> fst (loadNotifications world_null) = Inl malformed
   \<and> fst (lookupNotification world_null (Fin 6) process_start) = Inr None"
  by (simp add: lookupNotification_def loadNotifications_def world_null_def parse_only_def
      process_start_def new_Notification_def eval_hex malformed_def)

end
